theory Spec2Isabelle
  imports Complex_Main
begin

section \<open>JavaScript values\<close>

text \<open>
  The handlers of \<^verbatim>\<open>server.js\<close> read a JSON body, test its fields for truthiness and
  splice them into template strings. A value is what \<^verbatim>\<open>JSON.parse\<close> can give, or
  \<^verbatim>\<open>undefined\<close> (what an absent property reads as). A number is the value of the double:
  a rational, or an infinity (\<^verbatim>\<open>1e999\<close> parses to \<^verbatim>\<open>Infinity\<close>; \<open>JInfinity True\<close> is the
  negative one); \<^verbatim>\<open>-0\<close> is \<open>JNum 0\<close>, which it equals under \<^verbatim>\<open>===\<close> and prints as. A
  string is the list of its UTF-8 bytes; an object is the list of its own properties, each
  name once.
\<close>

datatype jsval =
    JUndefined
  | JNull
  | JBool bool
  | JNum rat
  | JInfinity bool
  | JStr string
  | JArr "jsval list"
  | JObj "(string \<times> jsval) list"

text \<open>ToBoolean: \<^verbatim>\<open>undefined\<close>, \<^verbatim>\<open>null\<close>, \<^verbatim>\<open>false\<close>, \<^verbatim>\<open>0\<close> and \<^verbatim>\<open>''\<close> are falsy,
  everything else (every array and object too) is truthy.\<close>

fun truthy :: "jsval \<Rightarrow> bool" where
  "truthy JUndefined = False"
| "truthy JNull = False"
| "truthy (JBool b) = b"
| "truthy (JNum n) = (n \<noteq> 0)"
| "truthy (JInfinity neg) = True"
| "truthy (JStr s) = (s \<noteq> [])"
| "truthy (JArr xs) = True"
| "truthy (JObj kvs) = True"

text \<open>\<^verbatim>\<open>a || b\<close> on values.\<close>

definition js_or :: "jsval \<Rightarrow> jsval \<Rightarrow> jsval" where
  "js_or a b = (if truthy a then a else b)"

text \<open>\<^verbatim>\<open>o.k\<close> for a value that is not \<^verbatim>\<open>null\<close> or \<^verbatim>\<open>undefined\<close>: the property of an object,
  \<^verbatim>\<open>undefined\<close> when the object has none of that name or the value is not an object.\<close>

fun field :: "jsval \<Rightarrow> string \<Rightarrow> jsval" where
  "field (JObj kvs) k = (case map_of kvs k of Some v \<Rightarrow> v | None \<Rightarrow> JUndefined)"
| "field v k = JUndefined"

fun join_comma :: "string list \<Rightarrow> string" where
  "join_comma [] = []"
| "join_comma [s] = s"
| "join_comma (s # ss) = s @ '','' @ join_comma ss"

text \<open>
  ToString, as a template literal \<^verbatim>\<open>`${v}`\<close> applies it; \<open>None\<close> stands for the TypeError it
  can throw. The rendering of a finite number (\<^verbatim>\<open>Number::toString\<close> of the engine: shortest
  round-trip digits, exponent notation from \<^verbatim>\<open>1e21\<close>) is the parameter \<open>num_str\<close>.

  An array is its elements joined by commas, \<^verbatim>\<open>null\<close> and \<^verbatim>\<open>undefined\<close> elements as the
  empty string; the conversion of an element can throw. For a parsed object ToPrimitive
  looks up \<^verbatim>\<open>toString\<close> and then \<^verbatim>\<open>valueOf\<close>. Without an own property \<^verbatim>\<open>toString\<close>
  it finds \<^verbatim>\<open>Object.prototype.toString\<close>, which gives \<^verbatim>\<open>[object Object]\<close>. With one, its
  value is parsed JSON and not callable, and \<^verbatim>\<open>valueOf\<close> is either an own property (not
  callable either) or \<^verbatim>\<open>Object.prototype.valueOf\<close> (which returns the object itself): no
  primitive is found and a TypeError is thrown.
\<close>

fun to_str :: "(rat \<Rightarrow> string) \<Rightarrow> jsval \<Rightarrow> string option" where
  "to_str num_str JUndefined = Some ''undefined''"
| "to_str num_str JNull = Some ''null''"
| "to_str num_str (JBool b) = Some (if b then ''true'' else ''false'')"
| "to_str num_str (JNum n) = Some (num_str n)"
| "to_str num_str (JInfinity neg) = Some (if neg then ''-Infinity'' else ''Infinity'')"
| "to_str num_str (JStr s) = Some s"
| "to_str num_str (JArr xs) =
     map_option join_comma
       (those (map (\<lambda>x. if x = JUndefined \<or> x = JNull then Some [] else to_str num_str x) xs))"
| "to_str num_str (JObj kvs) =
     (if map_of kvs ''toString'' = None then Some ''[object Object]'' else None)"

section \<open>Configuration, requests, responses and effects\<close>

text \<open>The environment variables the handlers read. Start-up exits unless
  \<^verbatim>\<open>BACKEND_URL\<close> and \<^verbatim>\<open>BACKEND_SECRET\<close> are non-empty; \<^verbatim>\<open>TELEGRAM_WEBHOOK_SECRET\<close> defaults
  to the empty string.\<close>

record config =
  TELEGRAM_WEBHOOK_SECRET :: string
  BACKEND_URL :: string
  BACKEND_SECRET :: string

text \<open>What a handler reads of an HTTP request: the two headers (\<^verbatim>\<open>req.get\<close> gives
  \<^verbatim>\<open>undefined\<close> for an absent header) and the parsed body.\<close>

record request =
  x_api_key :: "string option"
  x_telegram_bot_api_secret_token :: "string option"
  body :: jsval

text \<open>\<^verbatim>\<open>req.get(h) || ''\<close>\<close>

definition header_or_empty :: "string option \<Rightarrow> string" where
  "header_or_empty h = (case h of None \<Rightarrow> [] | Some s \<Rightarrow> s)"

text \<open>\<^verbatim>\<open>res.sendStatus(c)\<close> and \<^verbatim>\<open>res.status(c).json(v)\<close> (\<^verbatim>\<open>res.json(v)\<close> is status 200).\<close>

datatype response = SendStatus nat | Json nat jsval

definition ok_true :: jsval where
  "ok_true = JObj [(''ok'', JBool True)]"

definition error_body :: "string \<Rightarrow> jsval" where
  "error_body m = JObj [(''error'', JStr m)]"

text \<open>The two operations of the messaging client: \<^verbatim>\<open>bot.sendMessage(chatId, text)\<close> and
  \<^verbatim>\<open>bot.sendDocument(chatId, doc, {caption})\<close>.\<close>

datatype call =
    SendMessage jsval string
  | SendDocument jsval jsval jsval

datatype level = LogInfo | LogWarn | LogError

text \<open>
  A handler's side effects, in the order it performs them: a platform call with its outcome
  (\<open>True\<close>: the awaited promise resolved, \<open>False\<close>: it rejected, so the \<^verbatim>\<open>await\<close> threw), a
  console line (its level and fixed first argument), the POST to the backend (URL,
  \<^verbatim>\<open>x-api-key\<close> header, payload), and the hand-over of an update to \<^verbatim>\<open>bot.processUpdate\<close>.
\<close>

datatype event =
    Tg call bool
  | Console level string
  | HttpPost string string jsval
  | ProcessUpdate jsval

text \<open>The platform decides each call from what happened before it and the call itself.\<close>

type_synonym platform = "event list \<Rightarrow> call \<Rightarrow> bool"

definition tg :: "platform \<Rightarrow> call \<Rightarrow> event list \<Rightarrow> bool \<times> event list" where
  "tg P c t = (P t c, t @ [Tg c (P t c)])"

definition console :: "level \<Rightarrow> string \<Rightarrow> event list \<Rightarrow> event list" where
  "console l m t = t @ [Console l m]"

text \<open>The platform calls of a trace, and those among them that were rejected.\<close>

fun tg_calls :: "event list \<Rightarrow> call list" where
  "tg_calls [] = []"
| "tg_calls (Tg c ok # es) = c # tg_calls es"
| "tg_calls (e # es) = tg_calls es"

fun rejected :: "event list \<Rightarrow> call list" where
  "rejected [] = []"
| "rejected (Tg c ok # es) = (if ok then rejected es else c # rejected es)"
| "rejected (e # es) = rejected es"

section \<open>The literal texts of \<^verbatim>\<open>server.js\<close>\<close>

text \<open>The non-ASCII glyphs, as the bytes that stand in the source file.\<close>

definition glyph_check :: string where
  "glyph_check = [CHR 0xC3, CHR 0xA2, CHR 0xC5, CHR 0x93, CHR 0xE2, CHR 0x80, CHR 0xA6]"

definition glyph_warning :: string where
  "glyph_warning = [CHR 0xC3, CHR 0xA2, CHR 0xC5, CHR 0xA1, CHR 0xC2, CHR 0xA0,
                    CHR 0xC3, CHR 0xAF, CHR 0xC2, CHR 0xB8]"

definition glyph_cross :: string where
  "glyph_cross = [CHR 0xC3, CHR 0xA2, CHR 0xC5, CHR 0x92]"

definition glyph_search :: string where
  "glyph_search = [CHR 0xC3, CHR 0xB0, CHR 0xC5, CHR 0xB8, CHR 0xE2, CHR 0x80, CHR 0x9D,
                   CHR 0xC5, CHR 0xBD]"

definition glyph_mdash :: string where
  "glyph_mdash = [CHR 0xC3, CHR 0xA2, CHR 0xE2, CHR 0x82, CHR 0xAC, CHR 0xE2, CHR 0x80, CHR 0x9D]"

definition glyph_ndash :: string where
  "glyph_ndash = [CHR 0xC3, CHR 0xA2, CHR 0xE2, CHR 0x82, CHR 0xAC, CHR 0xE2, CHR 0x80, CHR 0x9C]"

definition prompt_text :: string where
  "prompt_text = ''Please send the Job Description text (paste JD or use /apply <JD>).''"

definition usage_text :: string where
  "usage_text = ''Usage: /apply <paste the job description here>''"

definition ack_text :: string where
  "ack_text = glyph_check @ '' Received the Job Description. Generating an ATS-optimized resume ''
     @ glyph_mdash @ '' this may take ~20'' @ glyph_ndash
     @ ''40 seconds. I will send it here once ready.''"

definition submit_failed_text :: string where
  "submit_failed_text =
     glyph_warning @ '' Failed to submit the job to the backend. Please try again later.''"

text \<open>The template literals: \<open>None\<close> when the conversion of the spliced value throws.\<close>

definition generation_failed_text :: "(rat \<Rightarrow> string) \<Rightarrow> jsval \<Rightarrow> string option" where
  "generation_failed_text num_str jobId =
     map_option (\<lambda>s. glyph_cross @ '' Resume generation failed for job '' @ s
                      @ ''. Please try again or contact support.'')
       (to_str num_str (js_or jobId (JStr [])))"

definition caption_text :: "(rat \<Rightarrow> string) \<Rightarrow> jsval \<Rightarrow> string option" where
  "caption_text num_str hrEmail =
     (if truthy hrEmail
      then map_option (\<lambda>s. ''Your resume (HR Contact: '' @ s @ '')'') (to_str num_str hrEmail)
      else Some ''Your resume (generated).'')"

definition no_file_text :: string where
  "no_file_text = glyph_warning @ '' Backend reported completion but did not provide a file.''"

definition hr_contact_text :: "(rat \<Rightarrow> string) \<Rightarrow> jsval \<Rightarrow> string option" where
  "hr_contact_text num_str hrEmail =
     map_option (\<lambda>s. glyph_search @ '' HR Contact found: '' @ s) (to_str num_str hrEmail)"

definition job_id_text :: "(rat \<Rightarrow> string) \<Rightarrow> jsval \<Rightarrow> string option" where
  "job_id_text num_str jobId = map_option (\<lambda>s. ''Job ID: '' @ s) (to_str num_str jobId)"

definition delivery_failed_text :: string where
  "delivery_failed_text =
     glyph_warning @ '' Failed to send generated resume to your chat. The team has been notified.''"

section \<open>POST /resume-ready\<close>

text \<open>The constants the handler binds from the body (lines 244 to 250).\<close>

record notice =
  userId :: jsval
  tgPdfId :: jsval
  pdfUrl :: jsval
  hrEmail :: jsval
  status :: jsval
  jobId :: jsval

definition parse_notice :: "jsval \<Rightarrow> notice" where
  "parse_notice b =
     (let body = js_or b (JObj []) in
      \<lparr> userId = field body ''userId'',
        tgPdfId = (if truthy (field body ''tg_pdf_id'') \<or> field body ''tg_pdf_id'' = JNum 0
                   then field body ''tg_pdf_id'' else JNull),
        pdfUrl = js_or (field body ''pdf_url'') JNull,
        hrEmail = js_or (js_or (field body ''hrEmail'') (field body ''hr_contact'')) JNull,
        status = js_or (field body ''status'') (JStr ''completed''),
        jobId = js_or (field body ''jobId'') JNull \<rparr>)"

text \<open>The inner \<^verbatim>\<open>try\<close> block, statement by statement. Each part returns whether it ran to
  its end (\<open>False\<close>: a template or an awaited send threw, and control is in the \<^verbatim>\<open>catch\<close>).
  The arguments of a call are evaluated before the call: a template that throws leaves no
  platform call behind.\<close>

definition send_file ::
  "(rat \<Rightarrow> string) \<Rightarrow> platform \<Rightarrow> notice \<Rightarrow> event list \<Rightarrow> bool \<times> event list" where
  "send_file num_str P n t =
     (if truthy (tgPdfId n) then
        (case caption_text num_str (hrEmail n) of
           None \<Rightarrow> (False, t)
         | Some cap \<Rightarrow> tg P (SendDocument (userId n) (tgPdfId n) (JStr cap)) t)
      else if truthy (pdfUrl n) then
        (case caption_text num_str (hrEmail n) of
           None \<Rightarrow> (False, t)
         | Some cap \<Rightarrow> tg P (SendDocument (userId n) (pdfUrl n) (JStr cap)) t)
      else
        (case tg P (SendMessage (userId n) no_file_text) t of
           (True, t') \<Rightarrow> (True, console LogWarn ''resume-ready missing file for user'' t')
         | (False, t') \<Rightarrow> (False, t')))"

definition send_hr ::
  "(rat \<Rightarrow> string) \<Rightarrow> platform \<Rightarrow> notice \<Rightarrow> event list \<Rightarrow> bool \<times> event list" where
  "send_hr num_str P n t =
     (if truthy (hrEmail n) then
        (case hr_contact_text num_str (hrEmail n) of
           None \<Rightarrow> (False, t)
         | Some s \<Rightarrow> tg P (SendMessage (userId n) s) t)
      else (True, t))"

definition send_job ::
  "(rat \<Rightarrow> string) \<Rightarrow> platform \<Rightarrow> notice \<Rightarrow> event list \<Rightarrow> bool \<times> event list" where
  "send_job num_str P n t =
     (if truthy (jobId n) then
        (case job_id_text num_str (jobId n) of
           None \<Rightarrow> (False, t)
         | Some s \<Rightarrow> tg P (SendMessage (userId n) s) t)
      else (True, t))"

definition deliver ::
  "(rat \<Rightarrow> string) \<Rightarrow> platform \<Rightarrow> notice \<Rightarrow> event list \<Rightarrow> bool \<times> event list" where
  "deliver num_str P n t =
     (case send_file num_str P n t of
        (False, t1) \<Rightarrow> (False, t1)
      | (True, t1) \<Rightarrow>
          (case send_hr num_str P n t1 of
             (False, t2) \<Rightarrow> (False, t2)
           | (True, t2) \<Rightarrow> send_job num_str P n t2))"

text \<open>The handler: the response it gives and the effects it performed.\<close>

definition resume_ready ::
  "config \<Rightarrow> (rat \<Rightarrow> string) \<Rightarrow> platform \<Rightarrow> request \<Rightarrow> response \<times> event list" where
  "resume_ready cfg num_str P req =
     (let key = header_or_empty (x_api_key req) in
      if key = [] \<or> key \<noteq> BACKEND_SECRET cfg then
        (SendStatus 403, console LogWarn ''Unauthorized resume-ready call from'' [])
      else
        let n = parse_notice (body req) in
        if \<not> truthy (userId n) then
          (Json 400 (error_body ''missing userId''),
           console LogWarn ''resume-ready missing userId'' [])
        else if status n \<noteq> JStr ''completed'' then
          (case generation_failed_text num_str (jobId n) of
             None \<Rightarrow>
               (Json 500 (error_body ''internal error''),
                console LogError ''Error in /resume-ready:'' [])
           | Some s \<Rightarrow>
               (case tg P (SendMessage (userId n) s) [] of
                  (True, t) \<Rightarrow> (Json 200 ok_true, t)
                | (False, t) \<Rightarrow>
                    (Json 500 (error_body ''internal error''),
                     console LogError ''Error in /resume-ready:'' t)))
        else
          (case deliver num_str P n [] of
             (True, t) \<Rightarrow> (Json 200 ok_true, t)
           | (False, t) \<Rightarrow>
               (Json 500 (error_body ''failed to deliver resume''),
                snd (tg P (SendMessage (userId n) delivery_failed_text)
                       (console LogError ''Error sending document to user'' t)))))"

section \<open>POST /admin/resend\<close>

definition admin_resend :: "config \<Rightarrow> platform \<Rightarrow> request \<Rightarrow> response \<times> event list" where
  "admin_resend cfg P req =
     (let key = header_or_empty (x_api_key req) in
      if key = [] \<or> key \<noteq> BACKEND_SECRET cfg then (SendStatus 403, [])
      else
        let b = js_or (body req) (JObj []);
            userId = field b ''userId'';
            tgPdfId = field b ''tgPdfId'';
            pdfUrl = field b ''pdfUrl'';
            caption = field b ''caption''
        in
        if \<not> truthy userId then (Json 400 (error_body ''missing userId''), [])
        else if truthy tgPdfId then
          (case tg P (SendDocument userId tgPdfId (js_or caption (JStr ''Resent resume''))) [] of
             (True, t) \<Rightarrow> (Json 200 ok_true, t)
           | (False, t) \<Rightarrow>
               (Json 500 (error_body ''failed''), console LogError ''admin resend error'' t))
        else if truthy pdfUrl then
          (case tg P (SendDocument userId pdfUrl (js_or caption (JStr ''Resent resume''))) [] of
             (True, t) \<Rightarrow> (Json 200 ok_true, t)
           | (False, t) \<Rightarrow>
               (Json 500 (error_body ''failed''), console LogError ''admin resend error'' t))
        else (Json 400 (error_body ''no file provided''), []))"

section \<open>POST /tg-webhook\<close>

text \<open>\<^verbatim>\<open>bot.processUpdate\<close> belongs to the client library; whether it throws on a body is a
  parameter of the handler.\<close>

definition tg_webhook :: "config \<Rightarrow> (jsval \<Rightarrow> bool) \<Rightarrow> request \<Rightarrow> response \<times> event list" where
  "tg_webhook cfg processUpdate_throws req =
     (if TELEGRAM_WEBHOOK_SECRET cfg \<noteq> []
         \<and> (let secretHeader = header_or_empty (x_telegram_bot_api_secret_token req)
            in secretHeader = [] \<or> secretHeader \<noteq> TELEGRAM_WEBHOOK_SECRET cfg) then
        (SendStatus 401, console LogWarn ''Invalid telegram webhook secret token from'' [])
      else if processUpdate_throws (body req) then
        (SendStatus 500,
         console LogError ''Error processing /tg-webhook:'' [ProcessUpdate (body req)])
      else (SendStatus 200, [ProcessUpdate (body req)]))"

section \<open>The message handler\<close>

text \<open>What the handler reads of a platform message.\<close>

record tg_user =
  user_id :: int
  username :: "string option"

record tg_chat =
  chat_id :: int

record message =
  msg_from :: "tg_user option"
  msg_chat :: "tg_chat option"
  msg_text :: "string option"

text \<open>The white space and line terminators that \<^verbatim>\<open>String.prototype.trim\<close> strips, in UTF-8:
  U+0009 to U+000D, U+0020, U+00A0, U+1680, U+2000 to U+200A, U+2028, U+2029, U+202F, U+205F,
  U+3000 and U+FEFF.\<close>

definition white_space :: "string list" where
  "white_space =
     [[CHR 0x09], [CHR 0x0A], [CHR 0x0B], [CHR 0x0C], [CHR 0x0D], [CHR 0x20],
      [CHR 0xC2, CHR 0xA0], [CHR 0xE1, CHR 0x9A, CHR 0x80],
      [CHR 0xE2, CHR 0x80, CHR 0x80], [CHR 0xE2, CHR 0x80, CHR 0x81],
      [CHR 0xE2, CHR 0x80, CHR 0x82], [CHR 0xE2, CHR 0x80, CHR 0x83],
      [CHR 0xE2, CHR 0x80, CHR 0x84], [CHR 0xE2, CHR 0x80, CHR 0x85],
      [CHR 0xE2, CHR 0x80, CHR 0x86], [CHR 0xE2, CHR 0x80, CHR 0x87],
      [CHR 0xE2, CHR 0x80, CHR 0x88], [CHR 0xE2, CHR 0x80, CHR 0x89],
      [CHR 0xE2, CHR 0x80, CHR 0x8A], [CHR 0xE2, CHR 0x80, CHR 0xA8],
      [CHR 0xE2, CHR 0x80, CHR 0xA9], [CHR 0xE2, CHR 0x80, CHR 0xAF],
      [CHR 0xE2, CHR 0x81, CHR 0x9F], [CHR 0xE3, CHR 0x80, CHR 0x80],
      [CHR 0xEF, CHR 0xBB, CHR 0xBF]]"

text \<open>Strip from the front every leading occurrence of one of the sequences \<open>ws\<close>.\<close>

function strip_front :: "string list \<Rightarrow> string \<Rightarrow> string" where
  "strip_front ws s =
     (case find (\<lambda>w. w \<noteq> [] \<and> take (length w) s = w) ws of
        None \<Rightarrow> s
      | Some w \<Rightarrow> strip_front ws (drop (length w) s))"
  by pat_completeness auto
termination
proof (relation "measure (\<lambda>(ws, s). length s)")
  show "wf (measure (\<lambda>(ws, s). length s))" by simp
next
  fix ws :: "string list" and s w :: string
  assume "find (\<lambda>w. w \<noteq> [] \<and> take (length w) s = w) ws = Some w"
  then have w: "w \<noteq> []" "take (length w) s = w"
    by (auto simp: find_Some_iff)
  then have "s \<noteq> []" by auto
  with w show "((ws, drop (length w) s), (ws, s)) \<in> measure (\<lambda>(ws, s). length s)"
    by (cases w) auto
qed

definition trim :: "string \<Rightarrow> string" where
  "trim s = rev (strip_front (map rev white_space) (rev (strip_front white_space s)))"

definition starts_with :: "string \<Rightarrow> string \<Rightarrow> bool" where
  "starts_with s p = (take (length p) s = p)"

text \<open>\<^verbatim>\<open>s.replace(p, r)\<close> for a string pattern: the first occurrence only.\<close>

fun replace_first :: "string \<Rightarrow> string \<Rightarrow> string \<Rightarrow> string" where
  "replace_first p r [] = (if p = [] then r else [])"
| "replace_first p r (c # cs) =
     (if take (length p) (c # cs) = p then r @ drop (length p) (c # cs)
      else c # replace_first p r cs)"

text \<open>\<^verbatim>\<open>BACKEND_URL.replace(/\/$/, '') + '/apply'\<close>\<close>

definition apply_url :: "config \<Rightarrow> string" where
  "apply_url cfg =
     (if BACKEND_URL cfg \<noteq> [] \<and> last (BACKEND_URL cfg) = CHR ''/''
      then butlast (BACKEND_URL cfg) else BACKEND_URL cfg) @ ''/apply''"

text \<open>The outcome of \<^verbatim>\<open>axios.post\<close>: it rejects (network error, timeout, status outside
  2xx) or resolves with the response data.\<close>

datatype post_result = PostFailed | PostOk jsval

type_synonym backend = "jsval \<Rightarrow> post_result"

text \<open>The detached task (lines 175 to 211): the POST, then a console line or the
  best-effort failure notice.\<close>

definition submit ::
  "config \<Rightarrow> platform \<Rightarrow> backend \<Rightarrow> int \<Rightarrow> int \<Rightarrow> string \<Rightarrow> string \<Rightarrow> event list \<Rightarrow> event list" where
  "submit cfg P B uid chatId uname jdText t =
     (let payload = JObj [(''userId'', JNum (of_int uid)), (''jd'', JStr jdText),
                          (''meta'', JObj [(''username'', JStr uname),
                                          (''chatId'', JNum (of_int chatId))])];
          t1 = t @ [HttpPost (apply_url cfg) (BACKEND_SECRET cfg) payload]
      in case B payload of
           PostOk data \<Rightarrow>
             (if truthy data \<and> truthy (field data ''jobId'')
              then console LogInfo ''Backend accepted job'' t1
              else console LogInfo ''Backend response (no jobId) for user'' t1)
         | PostFailed \<Rightarrow>
             snd (tg P (SendMessage (JNum (of_int chatId)) submit_failed_text)
                    (console LogError ''Error sending JD to backend:'' t1)))"

text \<open>The outer \<^verbatim>\<open>catch\<close> of the handler, for a send that is its last statement.\<close>

definition or_log :: "bool \<times> event list \<Rightarrow> event list" where
  "or_log r = (case r of (True, t) \<Rightarrow> t
                       | (False, t) \<Rightarrow> console LogError ''Error in message handler:'' t)"

text \<open>From the acknowledgement on (lines 169 to 211).\<close>

definition acknowledge ::
  "config \<Rightarrow> platform \<Rightarrow> backend \<Rightarrow> int \<Rightarrow> int \<Rightarrow> string \<Rightarrow> string \<Rightarrow> event list" where
  "acknowledge cfg P B uid chatId uname jdText =
     (case tg P (SendMessage (JNum (of_int chatId)) ack_text) [] of
        (True, t) \<Rightarrow> submit cfg P B uid chatId uname jdText t
      | (False, t) \<Rightarrow> console LogError ''Error in message handler:'' t)"

text \<open>\<^verbatim>\<open>jdText\<close> as lines 160 to 162 leave it.\<close>

definition jd_text :: "string \<Rightarrow> string" where
  "jd_text text =
     (if starts_with text ''/apply'' then trim (replace_first ''/apply'' [] text) else text)"

definition on_message :: "config \<Rightarrow> platform \<Rightarrow> backend \<Rightarrow> message option \<Rightarrow> event list" where
  "on_message cfg P B msg =
     (case msg of
        None \<Rightarrow> []
      | Some m \<Rightarrow>
          (case (msg_from m, msg_chat m) of
             (Some sender, Some chat) \<Rightarrow>
               (let chatId = chat_id chat;
                    userId = user_id sender;
                    uname = (case username sender of None \<Rightarrow> [] | Some u \<Rightarrow> u);
                    text = trim (case msg_text m of None \<Rightarrow> [] | Some s \<Rightarrow> s)
                in
                if text = [] then or_log (tg P (SendMessage (JNum (of_int chatId)) prompt_text) [])
                else
                  let jdText = jd_text text in
                  if starts_with text ''/apply'' \<and> jdText = [] then
                    or_log (tg P (SendMessage (JNum (of_int chatId)) usage_text) [])
                  else acknowledge cfg P B userId chatId uname jdText)
           | _ \<Rightarrow> []))"

text \<open>Whether an effect is the POST to the backend.\<close>

fun is_post :: "event \<Rightarrow> bool" where
  "is_post (HttpPost u k p) = True"
| "is_post e = False"

fun is_document :: "call \<Rightarrow> bool" where
  "is_document (SendDocument chat doc cap) = True"
| "is_document c = False"

section \<open>Predicates on values and traces\<close>

text \<open>A value that is spliced into a template (it is truthy) and whose conversion throws.\<close>

definition unprintable :: "(rat \<Rightarrow> string) \<Rightarrow> jsval \<Rightarrow> bool" where
  "unprintable num_str v = (truthy v \<and> to_str num_str v = None)"

text \<open>The sends the \<^verbatim>\<open>try\<close> block of \<^verbatim>\<open>/resume-ready\<close> can make: a document, the
  no-file apology, the HR contact and the job id.\<close>

definition delivery_call :: "(rat \<Rightarrow> string) \<Rightarrow> notice \<Rightarrow> call \<Rightarrow> bool" where
  "delivery_call num_str n c =
     (is_document c \<or> c = SendMessage (userId n) no_file_text
      \<or> map_option (SendMessage (userId n)) (hr_contact_text num_str (hrEmail n)) = Some c
      \<or> map_option (SendMessage (userId n)) (job_id_text num_str (jobId n)) = Some c)"

text \<open>How a delivery that threw leaves the trace: with no rejected send in it and an
  unprintable value to splice (a template threw), or with a rejected delivery send as its
  last event and none before.\<close>

definition stopped :: "(rat \<Rightarrow> string) \<Rightarrow> notice \<Rightarrow> event list \<Rightarrow> bool" where
  "stopped num_str n t =
     (rejected t = [] \<and> (unprintable num_str (hrEmail n) \<or> unprintable num_str (jobId n))
      \<or> (\<exists>t0 c. t = t0 @ [Tg c False] \<and> rejected t0 = [] \<and> delivery_call num_str n c))"

text \<open>A message that begins as the generation-failure message of line 260 does.\<close>

definition failure_prefix :: string where
  "failure_prefix = glyph_cross @ '' Resume generation failed for job ''"

fun is_failure_message :: "call \<Rightarrow> bool" where
  "is_failure_message (SendMessage chat s) = (take (length failure_prefix) s = failure_prefix)"
| "is_failure_message c = False"

text \<open>A stretch of a trace with no document send, no apology and no generation-failure
  message in it.\<close>

definition plain :: "notice \<Rightarrow> event list \<Rightarrow> bool" where
  "plain n u =
     (\<not> list_ex is_document (tg_calls u)
      \<and> SendMessage (userId n) no_file_text \<notin> set (tg_calls u)
      \<and> \<not> list_ex is_failure_message (tg_calls u))"

section \<open>Sample inputs\<close>

definition cfg_ex :: config where
  "cfg_ex = \<lparr> TELEGRAM_WEBHOOK_SECRET = [], BACKEND_URL = ''https://backend.example.com/'',
              BACKEND_SECRET = ''s3cret'' \<rparr>"

definition cfg_secret_ex :: config where
  "cfg_secret_ex = \<lparr> TELEGRAM_WEBHOOK_SECRET = ''hook'', BACKEND_URL = ''https://backend.example.com'',
                     BACKEND_SECRET = ''s3cret'' \<rparr>"

text \<open>A platform that accepts every call, one that rejects every call, and one that rejects
  exactly the call number \<open>k\<close> of a request (counted from 0).\<close>

definition accept_all :: platform where
  "accept_all t c = True"

definition reject_all :: platform where
  "reject_all t c = False"

definition reject_nth :: "nat \<Rightarrow> platform" where
  "reject_nth k t c = (length (tg_calls t) \<noteq> k)"

definition backend_ex :: backend where
  "backend_ex p = PostOk (JObj [(''jobId'', JStr ''J1'')])"

text \<open>A request from the backend, with the shared secret and the given body.\<close>

definition backend_req :: "jsval \<Rightarrow> request" where
  "backend_req b =
     \<lparr> x_api_key = Some ''s3cret'', x_telegram_bot_api_secret_token = None, body = b \<rparr>"

definition text_msg :: "string \<Rightarrow> message" where
  "text_msg s =
     \<lparr> msg_from = Some \<lparr> user_id = 7, username = Some ''ann'' \<rparr>,
       msg_chat = Some \<lparr> chat_id = 9 \<rparr>, msg_text = Some s \<rparr>"

text \<open>The decimal digits of an integer, which is how \<^verbatim>\<open>Number::toString\<close> renders a safe
  integer; the samples splice no other number.\<close>

function dec_nat :: "nat \<Rightarrow> string" where
  "dec_nat n = (if n < 10 then [''0123456789'' ! n]
                else dec_nat (n div 10) @ [''0123456789'' ! (n mod 10)])"
  by pat_completeness auto
termination
  by (relation "measure (\<lambda>n. n)") auto

definition dec_int :: "int \<Rightarrow> string" where
  "dec_int i = (if i < 0 then CHR ''-'' # dec_nat (nat (- i)) else dec_nat (nat i))"

definition num_str_ex :: "rat \<Rightarrow> string" where
  "num_str_ex q = dec_int \<lfloor>q\<rfloor>"

text \<open>The body of the spec's first example, and the same with an \<^verbatim>\<open>hrEmail\<close> object that has
  an own \<^verbatim>\<open>toString\<close> property.\<close>

definition body_full :: jsval where
  "body_full = JObj [(''userId'', JNum 532287234), (''status'', JStr ''completed''),
                     (''tg_pdf_id'', JStr ''X''), (''hrEmail'', JStr ''h@x.com''),
                     (''jobId'', JStr ''J1'')]"

definition body_object_hr :: jsval where
  "body_object_hr = JObj [(''userId'', JNum 532287234), (''status'', JStr ''completed''),
                          (''tg_pdf_id'', JStr ''X''),
                          (''hrEmail'', JObj [(''toString'', JStr ''x'')]),
                          (''jobId'', JStr ''J1'')]"

definition hook_req :: "string option \<Rightarrow> jsval \<Rightarrow> request" where
  "hook_req h b = \<lparr> x_api_key = None, x_telegram_bot_api_secret_token = h, body = b \<rparr>"

section \<open>Auxiliary facts\<close>

lemma field_js_or [simp]: "field (js_or b (JObj [])) k = field b k"
  by (cases b) (auto simp: js_or_def)

lemma parse_notice_sel [simp]:
  "userId (parse_notice b) = field b ''userId''"
  "tgPdfId (parse_notice b) =
     (if truthy (field b ''tg_pdf_id'') \<or> field b ''tg_pdf_id'' = JNum 0
      then field b ''tg_pdf_id'' else JNull)"
  "pdfUrl (parse_notice b) = js_or (field b ''pdf_url'') JNull"
  "hrEmail (parse_notice b) = js_or (js_or (field b ''hrEmail'') (field b ''hr_contact'')) JNull"
  "status (parse_notice b) = js_or (field b ''status'') (JStr ''completed'')"
  "jobId (parse_notice b) = js_or (field b ''jobId'') JNull"
  by (simp_all add: parse_notice_def Let_def)

lemma truthy_js_or_null [simp]: "truthy (js_or a JNull) = truthy a"
  by (simp add: js_or_def)

lemma truthy_tgPdfId [simp]:
  "truthy (tgPdfId (parse_notice b)) = truthy (field b ''tg_pdf_id'')"
  by auto

lemma js_or_truthy: "truthy a \<Longrightarrow> js_or a b = a"
  by (simp add: js_or_def)

lemma js_or_JStr: "js_or c (JStr s) = (if truthy c then c else JStr s)"
  by (simp add: js_or_def)

lemma rejected_append [simp]: "rejected (t @ u) = rejected t @ rejected u"
  by (induction t rule: rejected.induct) auto

lemma tg_calls_append [simp]: "tg_calls (t @ u) = tg_calls t @ tg_calls u"
  by (induction t rule: tg_calls.induct) auto

lemma eq_snoc_iff: "ys = xs @ [x] \<longleftrightarrow> ys \<noteq> [] \<and> butlast ys = xs \<and> last ys = x"
  using snoc_eq_iff_butlast [of xs x ys] by auto

lemmas sample_defs = cfg_ex_def accept_all_def reject_all_def backend_req_def body_full_def

lemmas delivery_defs = deliver_def send_file_def send_hr_def send_job_def tg_def console_def

lemmas text_defs = caption_text_def hr_contact_text_def job_id_text_def no_file_text_def
  delivery_failed_text_def generation_failed_text_def

lemmas run_defs = resume_ready_def delivery_defs header_or_empty_def js_or_def text_defs Let_def

subsection \<open>The literal texts are told apart by their first bytes\<close>

lemma no_file_not_failure [simp]: "take (length failure_prefix) no_file_text \<noteq> failure_prefix"
  by (simp add: failure_prefix_def no_file_text_def glyph_warning_def glyph_cross_def)

lemma delivery_failed_not_failure [simp]:
  "take (length failure_prefix) delivery_failed_text \<noteq> failure_prefix"
  by (simp add: failure_prefix_def delivery_failed_text_def glyph_warning_def glyph_cross_def)

lemma delivery_failed_neq_no_file [simp]: "delivery_failed_text \<noteq> no_file_text"
  by (simp add: delivery_failed_text_def no_file_text_def glyph_warning_def)

lemma hr_contact_text_facts:
  assumes "hr_contact_text num_str h = Some s"
  shows "s \<noteq> no_file_text" and "take (length failure_prefix) s \<noteq> failure_prefix"
  using assms
  by (auto simp: hr_contact_text_def no_file_text_def failure_prefix_def glyph_warning_def
      glyph_search_def glyph_cross_def)

lemma job_id_text_facts:
  assumes "job_id_text num_str j = Some s"
  shows "s \<noteq> no_file_text" and "take (length failure_prefix) s \<noteq> failure_prefix"
  using assms
  by (auto simp: job_id_text_def no_file_text_def failure_prefix_def glyph_warning_def
      glyph_cross_def)

lemma generation_failed_text_prefix:
  "generation_failed_text num_str j = Some s \<Longrightarrow> take (length failure_prefix) s = failure_prefix"
  by (auto simp: generation_failed_text_def failure_prefix_def glyph_cross_def)

lemma ack_neq_submit_failed: "submit_failed_text \<noteq> ack_text"
  by (simp add: ack_text_def submit_failed_text_def glyph_check_def glyph_warning_def)

lemma plain_simps [simp]:
  "plain n []"
  "plain n (Console l m # u) = plain n u"
  "plain n (Tg (SendMessage c delivery_failed_text) ok # u) = plain n u"
  by (simp_all add: plain_def delivery_failed_neq_no_file [THEN not_sym])

lemma plain_hr [simp]:
  "hr_contact_text num_str h = Some s \<Longrightarrow> plain n (Tg (SendMessage c s) ok # u) = plain n u"
  using hr_contact_text_facts [of num_str h s] by (auto simp: plain_def)

lemma plain_job [simp]:
  "job_id_text num_str j = Some s \<Longrightarrow> plain n (Tg (SendMessage c s) ok # u) = plain n u"
  using job_id_text_facts [of num_str j s] by (auto simp: plain_def)

lemma plain_append [simp]: "plain n (u @ v) = (plain n u \<and> plain n v)"
  by (auto simp: plain_def)

subsection \<open>When a template throws\<close>

lemma caption_text_None: "caption_text num_str h = None \<longleftrightarrow> unprintable num_str h"
  by (simp add: caption_text_def unprintable_def)

lemma hr_contact_text_None: "hr_contact_text num_str h = None \<longleftrightarrow> to_str num_str h = None"
  by (simp add: hr_contact_text_def)

lemma job_id_text_None: "job_id_text num_str j = None \<longleftrightarrow> to_str num_str j = None"
  by (simp add: job_id_text_def)

lemma hr_contact_text_SomeD: "hr_contact_text num_str h = Some s \<Longrightarrow> to_str num_str h \<noteq> None"
  by (auto simp: hr_contact_text_def)

lemma job_id_text_SomeD: "job_id_text num_str j = Some s \<Longrightarrow> to_str num_str j \<noteq> None"
  by (auto simp: job_id_text_def)

lemma unprintable_js_or_null [simp]:
  "unprintable num_str (js_or a JNull) = unprintable num_str a"
  by (simp add: unprintable_def js_or_def)

subsection \<open>The steps of the delivery\<close>

lemma send_file_id:
  "truthy (field b ''tg_pdf_id'') \<Longrightarrow>
   send_file num_str P (parse_notice b) t =
     (case caption_text num_str (hrEmail (parse_notice b)) of
        None \<Rightarrow> (False, t)
      | Some cap \<Rightarrow> tg P (SendDocument (field b ''userId'') (field b ''tg_pdf_id'') (JStr cap)) t)"
  by (simp add: send_file_def del: parse_notice_sel(4) split: option.splits)

lemma send_file_url:
  "\<not> truthy (field b ''tg_pdf_id'') \<Longrightarrow> truthy (field b ''pdf_url'') \<Longrightarrow>
   send_file num_str P (parse_notice b) t =
     (case caption_text num_str (hrEmail (parse_notice b)) of
        None \<Rightarrow> (False, t)
      | Some cap \<Rightarrow> tg P (SendDocument (field b ''userId'') (field b ''pdf_url'') (JStr cap)) t)"
  by (simp add: send_file_def js_or_truthy del: parse_notice_sel(2,4) split: option.splits)

lemma send_file_none:
  "\<not> truthy (field b ''tg_pdf_id'') \<Longrightarrow> \<not> truthy (field b ''pdf_url'') \<Longrightarrow>
   send_file num_str P (parse_notice b) t =
     (case tg P (SendMessage (field b ''userId'') no_file_text) t of
        (True, t') \<Rightarrow> (True, console LogWarn ''resume-ready missing file for user'' t')
      | (False, t') \<Rightarrow> (False, t'))"
  by (simp add: send_file_def del: parse_notice_sel(2,4))

text \<open>The follow-up sends add a plain stretch to the trace; they run to their end exactly
  when no send in it is rejected and no spliced value is unprintable.\<close>

lemma send_hr_tail:
  "\<exists>u. send_hr num_str P n t =
          (rejected u = [] \<and> \<not> unprintable num_str (hrEmail n), t @ u) \<and> plain n u"
proof (cases "truthy (hrEmail n)")
  case False
  then show ?thesis by (simp add: send_hr_def unprintable_def)
next
  case True
  show ?thesis
  proof (cases "hr_contact_text num_str (hrEmail n)")
    case None
    then have "to_str num_str (hrEmail n) = None"
      by (simp add: hr_contact_text_None)
    with True None show ?thesis
      by (intro exI [of _ "[]"]) (simp add: send_hr_def unprintable_def)
  next
    case (Some s)
    with True have "to_str num_str (hrEmail n) \<noteq> None"
      by (auto simp: hr_contact_text_def)
    with True Some show ?thesis
      by (intro exI [of _ "[Tg (SendMessage (userId n) s) (P t (SendMessage (userId n) s))]"])
         (simp add: send_hr_def unprintable_def tg_def)
  qed
qed

lemma send_job_tail:
  "\<exists>u. send_job num_str P n t =
          (rejected u = [] \<and> \<not> unprintable num_str (jobId n), t @ u) \<and> plain n u"
proof (cases "truthy (jobId n)")
  case False
  then show ?thesis by (simp add: send_job_def unprintable_def)
next
  case True
  show ?thesis
  proof (cases "job_id_text num_str (jobId n)")
    case None
    then have "to_str num_str (jobId n) = None"
      by (simp add: job_id_text_None)
    with True None show ?thesis
      by (intro exI [of _ "[]"]) (simp add: send_job_def unprintable_def)
  next
    case (Some s)
    with True have "to_str num_str (jobId n) \<noteq> None"
      by (auto simp: job_id_text_def)
    with True Some show ?thesis
      by (intro exI [of _ "[Tg (SendMessage (userId n) s) (P t (SendMessage (userId n) s))]"])
         (simp add: send_job_def unprintable_def tg_def)
  qed
qed


lemma follow_ups_tail:
  "\<exists>u. (case send_hr num_str P n t of
           (False, t2) \<Rightarrow> (False, t2)
         | (True, t2) \<Rightarrow> send_job num_str P n t2)
        = (rejected u = [] \<and> \<not> unprintable num_str (hrEmail n)
             \<and> \<not> unprintable num_str (jobId n), t @ u)
      \<and> plain n u"
proof -
  obtain u where u:
    "send_hr num_str P n t = (rejected u = [] \<and> \<not> unprintable num_str (hrEmail n), t @ u)"
    "plain n u"
    using send_hr_tail by blast
  obtain v where v:
    "send_job num_str P n (t @ u) =
       (rejected v = [] \<and> \<not> unprintable num_str (jobId n), (t @ u) @ v)"
    "plain n v"
    using send_job_tail by blast
  show ?thesis
  proof (cases "rejected u = [] \<and> \<not> unprintable num_str (hrEmail n)")
    case True
    with u v show ?thesis by (intro exI [of _ "u @ v"]) auto
  next
    case False
    with u show ?thesis
      apply (intro exI [of _ u])
      apply auto
      done
  qed
qed


lemma deliver_split:
  "deliver num_str P n t =
     (case send_file num_str P n t of
        (False, t1) \<Rightarrow> (False, t1)
      | (True, t1) \<Rightarrow>
          (case send_hr num_str P n t1 of
             (False, t2) \<Rightarrow> (False, t2)
           | (True, t2) \<Rightarrow> send_job num_str P n t2))"
  by (simp add: deliver_def)

lemma send_file_threw:
  "send_file num_str P n [] = (False, t) \<Longrightarrow> rejected t \<noteq> [] \<or> unprintable num_str (hrEmail n)"
  by (auto simp: send_file_def tg_def console_def caption_text_None
      split: if_splits bool.splits option.splits)

lemma send_file_step:
  "send_file num_str P n t = (ok, t') \<Longrightarrow> rejected t = [] \<Longrightarrow>
     (if ok then rejected t' = [] else stopped num_str n t')"
  by (auto simp: send_file_def tg_def console_def stopped_def delivery_call_def
      caption_text_None split: if_splits bool.splits option.splits)

lemma send_hr_step:
  "send_hr num_str P n t = (ok, t') \<Longrightarrow> rejected t = [] \<Longrightarrow>
     (if ok then rejected t' = [] \<and> \<not> unprintable num_str (hrEmail n)
      else stopped num_str n t')"
  by (auto simp: send_hr_def tg_def stopped_def delivery_call_def unprintable_def
      hr_contact_text_None dest: hr_contact_text_SomeD
      split: if_splits bool.splits option.splits)

lemma send_job_step:
  "send_job num_str P n t = (ok, t') \<Longrightarrow> rejected t = [] \<Longrightarrow>
     (if ok then rejected t' = [] \<and> \<not> unprintable num_str (jobId n)
      else stopped num_str n t')"
  by (auto simp: send_job_def tg_def stopped_def delivery_call_def unprintable_def
      job_id_text_None dest: job_id_text_SomeD
      split: if_splits bool.splits option.splits)

lemma deliver_outcome:
  assumes "deliver num_str P n [] = (ok, t)"
  shows "if ok then rejected t = [] \<and> \<not> unprintable num_str (hrEmail n)
                    \<and> \<not> unprintable num_str (jobId n)
         else stopped num_str n t"
proof -
  obtain ok1 t1 where s1: "send_file num_str P n [] = (ok1, t1)"
    by (cases "send_file num_str P n []")
  obtain ok2 t2 where s2: "send_hr num_str P n t1 = (ok2, t2)"
    by (cases "send_hr num_str P n t1")
  obtain ok3 t3 where s3: "send_job num_str P n t2 = (ok3, t3)"
    by (cases "send_job num_str P n t2")
  note f1 = send_file_step [OF s1]
  show ?thesis
  proof (cases ok1)
    case False
    with assms s1 f1 show ?thesis by (simp add: deliver_split)
  next
    case ok1: True
    with f1 have r1: "rejected t1 = []" by simp
    note f2 = send_hr_step [OF s2 r1]
    show ?thesis
    proof (cases ok2)
      case False
      with assms s1 s2 ok1 f2 show ?thesis by (simp add: deliver_split)
    next
      case ok2: True
      with f2 have r2: "rejected t2 = []" "\<not> unprintable num_str (hrEmail n)" by simp_all
      note f3 = send_job_step [OF s3 r2(1)]
      from assms s1 s2 s3 ok1 ok2 have "ok = ok3" "t = t3" by (simp_all add: deliver_split)
      with f3 r2 show ?thesis by (cases ok3) simp_all
    qed
  qed
qed

text \<open>On the completed path the trace is what the file step did, followed by a plain
  stretch; the response is 200 when no send was rejected and no spliced value is
  unprintable.\<close>

lemma completed_path:
  assumes key: "x_api_key req = Some (BACKEND_SECRET cfg)" "BACKEND_SECRET cfg \<noteq> []"
    and uid: "truthy (field (body req) ''userId'')"
    and st: "status (parse_notice (body req)) = JStr ''completed''"
    and sf: "send_file num_str P (parse_notice (body req)) [] = (ok, t)"
  shows "\<exists>u. plain (parse_notice (body req)) u
           \<and> snd (resume_ready cfg num_str P req) = t @ u
           \<and> (rejected (t @ u) = [] \<and> \<not> unprintable num_str (hrEmail (parse_notice (body req)))
                \<and> \<not> unprintable num_str (jobId (parse_notice (body req))) \<longrightarrow>
                fst (resume_ready cfg num_str P req) = Json 200 ok_true)"
proof (cases ok)
  case False
  with key uid st sf send_file_threw [of num_str P "parse_notice (body req)" t] show ?thesis
    by (intro exI [of _ "[Console LogError ''Error sending document to user'',
             Tg (SendMessage (field (body req) ''userId'') delivery_failed_text)
                (P (t @ [Console LogError ''Error sending document to user''])
                   (SendMessage (field (body req) ''userId'') delivery_failed_text))]"])
       (auto simp: resume_ready_def header_or_empty_def Let_def deliver_def tg_def console_def
          simp del: parse_notice_sel(4,6))
next
  case True
  let ?n = "parse_notice (body req)"
  let ?fin = "\<lambda>u. rejected u = [] \<and> \<not> unprintable num_str (hrEmail ?n)
                   \<and> \<not> unprintable num_str (jobId ?n)"
  obtain u where u:
    "(case send_hr num_str P ?n t of
        (False, t2) \<Rightarrow> (False, t2)
      | (True, t2) \<Rightarrow> send_job num_str P ?n t2) = (?fin u, t @ u)"
    "plain ?n u"
    using follow_ups_tail by blast
  with True sf have d: "deliver num_str P ?n [] = (?fin u, t @ u)"
    by (simp add: deliver_split)
  show ?thesis
  proof (cases "?fin u")
    case True
    with key uid st d u(2) show ?thesis
      by (intro exI [of _ u])
         (simp add: resume_ready_def header_or_empty_def Let_def del: parse_notice_sel(4,6))
  next
    case False
    with key uid st d u(2) show ?thesis
      by (intro exI [of _ "u @ [Console LogError ''Error sending document to user'',
             Tg (SendMessage (field (body req) ''userId'') delivery_failed_text)
                (P (t @ u @ [Console LogError ''Error sending document to user''])
                   (SendMessage (field (body req) ''userId'') delivery_failed_text))]"])
        (auto simp: resume_ready_def header_or_empty_def Let_def tg_def console_def
           simp del: parse_notice_sel(4,6))
  qed
qed

subsection \<open>The message handler\<close>

lemma jd_text_Nil [simp]: "jd_text [] = []"
  by (simp add: jd_text_def starts_with_def)

lemma submit_trace:
  "\<exists>rest'. submit cfg P B uid chatId uname jd t =
      t @ HttpPost (apply_url cfg) (BACKEND_SECRET cfg)
            (JObj [(''userId'', JNum (of_int uid)), (''jd'', JStr jd),
                   (''meta'', JObj [(''username'', JStr uname),
                                   (''chatId'', JNum (of_int chatId))])])
          # rest'
    \<and> \<not> list_ex is_post rest'
    \<and> SendMessage (JNum (of_int chatId)) ack_text \<notin> set (tg_calls rest')"
  by (cases "B (JObj [(''userId'', JNum (of_int uid)), (''jd'', JStr jd),
                   (''meta'', JObj [(''username'', JStr uname),
                                   (''chatId'', JNum (of_int chatId))])])")
     (simp_all add: submit_def Let_def tg_def console_def ack_neq_submit_failed [THEN not_sym])

lemmas message_defs = on_message_def trim_def white_space_def jd_text_def starts_with_def
  acknowledge_def submit_def apply_url_def or_log_def tg_def console_def Let_def

section \<open>POST /resume-ready: the claims\<close>

text \<open>
  C1 (as amended). A \<^verbatim>\<open>/resume-ready\<close> request with the correct \<^verbatim>\<open>x-api-key\<close>, a userId,
  status \<^verbatim>\<open>"completed"\<close>, a file identifier \<^verbatim>\<open>tg_pdf_id\<close>, an \<^verbatim>\<open>hrEmail\<close> and a
  \<^verbatim>\<open>jobId\<close>, where the hrEmail and the jobId convert to strings without throwing and the
  platform accepts every send, performs exactly three platform calls, in this order: the
  document send of the file identifier with a caption that embeds the hrEmail, the text
  message with the hrEmail, and the text message \<^verbatim>\<open>Job ID: <jobId>\<close>. It performs no other
  effect and responds 200 \<^verbatim>\<open>{ok:true}\<close>.
\<close>

theorem resume_ready_completed_three_sends:
  assumes key: "x_api_key req = Some (BACKEND_SECRET cfg)" "BACKEND_SECRET cfg \<noteq> []"
    and uid: "truthy (field (body req) ''userId'')"
    and st: "field (body req) ''status'' = JStr ''completed''"
    and pdf: "truthy (field (body req) ''tg_pdf_id'')"
    and hr: "truthy (field (body req) ''hrEmail'')"
    and job: "truthy (field (body req) ''jobId'')"
    and hs: "to_str num_str (field (body req) ''hrEmail'') = Some h"
    and js: "to_str num_str (field (body req) ''jobId'') = Some j"
    and acc: "rejected (snd (resume_ready cfg num_str P req)) = []"
  shows "resume_ready cfg num_str P req =
     (Json 200 ok_true,
      [Tg (SendDocument (field (body req) ''userId'') (field (body req) ''tg_pdf_id'')
             (JStr (''Your resume (HR Contact: '' @ h @ '')''))) True,
       Tg (SendMessage (field (body req) ''userId'') (glyph_search @ '' HR Contact found: '' @ h))
          True,
       Tg (SendMessage (field (body req) ''userId'') (''Job ID: '' @ j)) True])"
  using assms
  by (auto simp: resume_ready_def delivery_defs header_or_empty_def js_or_truthy
      caption_text_def hr_contact_text_def job_id_text_def Let_def
      split: if_splits bool.splits)

theorem resume_ready_completed_three_sends_witness:
  "resume_ready cfg_ex num_str_ex accept_all (backend_req body_full) =
     (Json 200 ok_true,
      [Tg (SendDocument (JNum 532287234) (JStr ''X'')
             (JStr ''Your resume (HR Contact: h@x.com)'')) True,
       Tg (SendMessage (JNum 532287234) (glyph_search @ '' HR Contact found: h@x.com'')) True,
       Tg (SendMessage (JNum 532287234) ''Job ID: J1'') True])"
  using resume_ready_completed_three_sends [of "backend_req body_full" cfg_ex num_str_ex
      "''h@x.com''" "''J1''" accept_all]
  by (simp add: sample_defs run_defs)

text \<open>Without the two conditions the statement fails. An \<^verbatim>\<open>hrEmail\<close> object with an own
  \<^verbatim>\<open>toString\<close> property makes the caption template throw: no document is sent and the
  response is 500. A platform that rejects the document send gives 500 as well.\<close>

theorem resume_ready_completed_unprintable_or_rejected:
  "resume_ready cfg_ex num_str_ex accept_all (backend_req body_object_hr) =
     (Json 500 (error_body ''failed to deliver resume''),
      [Console LogError ''Error sending document to user'',
       Tg (SendMessage (JNum 532287234) delivery_failed_text) True])
   \<and> resume_ready cfg_ex num_str_ex reject_all (backend_req body_full) =
     (Json 500 (error_body ''failed to deliver resume''),
      [Tg (SendDocument (JNum 532287234) (JStr ''X'')
             (JStr ''Your resume (HR Contact: h@x.com)'')) False,
       Console LogError ''Error sending document to user'',
       Tg (SendMessage (JNum 532287234) delivery_failed_text) False])"
  by (simp add: sample_defs body_object_hr_def run_defs)

text \<open>
  C2. On the completed path of \<^verbatim>\<open>/resume-ready\<close> (correct key, a userId, status
  \<^verbatim>\<open>"completed"\<close> or defaulted to it), the first error thrown inside the \<^verbatim>\<open>try\<close> block, be it
  a send the platform rejects (the document or the no-file apology, the HR contact, the job
  id) or a template whose spliced value cannot be converted, ends the delivery there: the
  handler logs the error, sends the user the generic delivery-failure message whatever the
  outcome of that send, and responds 500 \<^verbatim>\<open>{error:"failed to deliver resume"}\<close>. No send
  before the error was rejected. Where nothing throws, the response is 200 \<^verbatim>\<open>{ok:true}\<close>.
\<close>

theorem resume_ready_delivery_failure:
  fixes cfg num_str P req
  defines "n \<equiv> parse_notice (body req)"
  defines "r \<equiv> resume_ready cfg num_str P req"
  defines "thrown \<equiv> rejected (snd (resume_ready cfg num_str P req)) \<noteq> []
                     \<or> unprintable num_str (hrEmail (parse_notice (body req)))
                     \<or> unprintable num_str (jobId (parse_notice (body req)))"
  assumes key: "x_api_key req = Some (BACKEND_SECRET cfg)" "BACKEND_SECRET cfg \<noteq> []"
    and uid: "truthy (field (body req) ''userId'')"
    and st: "status n = JStr ''completed''"
  shows "(thrown \<longrightarrow>
           fst r = Json 500 (error_body ''failed to deliver resume'')
           \<and> (\<exists>t ok. snd r =
                  t @ [Console LogError ''Error sending document to user'',
                       Tg (SendMessage (field (body req) ''userId'') delivery_failed_text) ok]
                \<and> (rejected t = []
                      \<and> (unprintable num_str (hrEmail n) \<or> unprintable num_str (jobId n))
                    \<or> (\<exists>t0 c. t = t0 @ [Tg c False] \<and> rejected t0 = []
                          \<and> delivery_call num_str n c))))
      \<and> (\<not> thrown \<longrightarrow> fst r = Json 200 ok_true)"
proof -
  obtain ok t where d: "deliver num_str P n [] = (ok, t)"
    by (cases "deliver num_str P n []")
  have res: "r =
      (if ok then (Json 200 ok_true, t)
       else (Json 500 (error_body ''failed to deliver resume''),
             snd (tg P (SendMessage (field (body req) ''userId'') delivery_failed_text)
                    (console LogError ''Error sending document to user'' t))))"
    using key uid st d unfolding r_def n_def
    by (simp add: resume_ready_def header_or_empty_def Let_def del: parse_notice_sel(4,6))
  note out = deliver_outcome [OF d]
  show ?thesis
  proof (cases ok)
    case True
    with out res have "\<not> thrown" "fst r = Json 200 ok_true"
      unfolding thrown_def r_def [symmetric] n_def [symmetric] by simp_all
    then show ?thesis by simp
  next
    case False
    with out have s: "stopped num_str n t" by simp
    then have "thrown"
      using res False unfolding thrown_def r_def [symmetric] n_def [symmetric]
      by (auto simp: stopped_def tg_def console_def)
    moreover from res False s have
      "fst r = Json 500 (error_body ''failed to deliver resume'')
       \<and> (\<exists>t ok. snd r =
              t @ [Console LogError ''Error sending document to user'',
                   Tg (SendMessage (field (body req) ''userId'') delivery_failed_text) ok]
            \<and> (rejected t = []
                  \<and> (unprintable num_str (hrEmail n) \<or> unprintable num_str (jobId n))
                \<or> (\<exists>t0 c. t = t0 @ [Tg c False] \<and> rejected t0 = []
                      \<and> delivery_call num_str n c)))"
      by (auto simp: tg_def console_def stopped_def)
    ultimately show ?thesis by simp
  qed
qed

text \<open>The HR-contact send rejected after an accepted document send; every send rejected,
  the failure notice included; and a caption template that throws.\<close>

theorem resume_ready_delivery_failure_witness:
  "resume_ready cfg_ex num_str_ex (reject_nth 1) (backend_req body_full) =
     (Json 500 (error_body ''failed to deliver resume''),
      [Tg (SendDocument (JNum 532287234) (JStr ''X'')
             (JStr ''Your resume (HR Contact: h@x.com)'')) True,
       Tg (SendMessage (JNum 532287234) (glyph_search @ '' HR Contact found: h@x.com'')) False,
       Console LogError ''Error sending document to user'',
       Tg (SendMessage (JNum 532287234) delivery_failed_text) True])
   \<and> resume_ready cfg_ex num_str_ex reject_all (backend_req body_full) =
     (Json 500 (error_body ''failed to deliver resume''),
      [Tg (SendDocument (JNum 532287234) (JStr ''X'')
             (JStr ''Your resume (HR Contact: h@x.com)'')) False,
       Console LogError ''Error sending document to user'',
       Tg (SendMessage (JNum 532287234) delivery_failed_text) False])
   \<and> resume_ready cfg_ex num_str_ex reject_all (backend_req body_object_hr) =
     (Json 500 (error_body ''failed to deliver resume''),
      [Console LogError ''Error sending document to user'',
       Tg (SendMessage (JNum 532287234) delivery_failed_text) False])"
  using
    resume_ready_delivery_failure [where cfg = cfg_ex and num_str = num_str_ex
      and P = "reject_nth 1" and req = "backend_req body_full"]
    resume_ready_delivery_failure [where cfg = cfg_ex and num_str = num_str_ex
      and P = reject_all and req = "backend_req body_full"]
    resume_ready_delivery_failure [where cfg = cfg_ex and num_str = num_str_ex
      and P = reject_all and req = "backend_req body_object_hr"]
  by (simp add: sample_defs reject_nth_def body_object_hr_def run_defs)

text \<open>
  C4 (as amended). On the completed path of \<^verbatim>\<open>/resume-ready\<close> the document is chosen with
  strict priority. When the caption can be built (no HR contact, or one that converts to a
  string) a truthy \<^verbatim>\<open>tg_pdf_id\<close> is sent as the document, first of all effects, and otherwise a
  truthy \<^verbatim>\<open>pdf_url\<close>; no second document follows. When the caption template throws, no
  document is sent: the handler logs, sends the delivery-failure message and responds 500.
  With neither reference no document is sent at all, the first effect is the apology message
  and it is sent once; the warning is logged when that send is accepted, and the response is
  200 \<^verbatim>\<open>{ok:true}\<close> when the platform accepts every send and the follow-up texts can be
  built.
\<close>

theorem resume_ready_document_priority:
  fixes cfg num_str P req
  defines "b \<equiv> body req"
  defines "n \<equiv> parse_notice (body req)"
  defines "r \<equiv> resume_ready cfg num_str P req"
  defines "tr \<equiv> snd (resume_ready cfg num_str P req)"
  assumes key: "x_api_key req = Some (BACKEND_SECRET cfg)" "BACKEND_SECRET cfg \<noteq> []"
    and uid: "truthy (field b ''userId'')"
    and st: "status n = JStr ''completed''"
  shows "(truthy (field b ''tg_pdf_id'') \<and> caption_text num_str (hrEmail n) = Some cap \<longrightarrow>
            (\<exists>ok rest. tr = Tg (SendDocument (field b ''userId'') (field b ''tg_pdf_id'')
                                  (JStr cap)) ok # rest
                \<and> \<not> list_ex is_document (tg_calls rest)))
      \<and> (\<not> truthy (field b ''tg_pdf_id'') \<and> truthy (field b ''pdf_url'')
           \<and> caption_text num_str (hrEmail n) = Some cap \<longrightarrow>
            (\<exists>ok rest. tr = Tg (SendDocument (field b ''userId'') (field b ''pdf_url'')
                                  (JStr cap)) ok # rest
                \<and> \<not> list_ex is_document (tg_calls rest)))
      \<and> ((truthy (field b ''tg_pdf_id'') \<or> truthy (field b ''pdf_url''))
           \<and> caption_text num_str (hrEmail n) = None \<longrightarrow>
            (\<exists>ok. r = (Json 500 (error_body ''failed to deliver resume''),
                        [Console LogError ''Error sending document to user'',
                         Tg (SendMessage (field b ''userId'') delivery_failed_text) ok])))
      \<and> (\<not> truthy (field b ''tg_pdf_id'') \<and> \<not> truthy (field b ''pdf_url'') \<longrightarrow>
            \<not> list_ex is_document (tg_calls tr)
            \<and> (\<exists>ok rest. tr = Tg (SendMessage (field b ''userId'') no_file_text) ok # rest
                  \<and> SendMessage (field b ''userId'') no_file_text \<notin> set (tg_calls rest)
                  \<and> (ok \<longrightarrow> Console LogWarn ''resume-ready missing file for user'' \<in> set rest))
            \<and> (rejected tr = [] \<and> \<not> unprintable num_str (hrEmail n)
                  \<and> \<not> unprintable num_str (jobId n) \<longrightarrow> fst r = Json 200 ok_true))"
proof -
  obtain ok t where sf: "send_file num_str P n [] = (ok, t)"
    by (cases "send_file num_str P n []")
  from completed_path [OF key uid [unfolded b_def] st [unfolded n_def] sf [unfolded n_def]]
  obtain u where u: "plain n u" "tr = t @ u"
      "rejected (t @ u) = [] \<and> \<not> unprintable num_str (hrEmail n)
         \<and> \<not> unprintable num_str (jobId n) \<longrightarrow> fst r = Json 200 ok_true"
    unfolding tr_def r_def n_def by blast
  have tail: "\<not> list_ex is_document (tg_calls u)"
      "SendMessage (field b ''userId'') no_file_text \<notin> set (tg_calls u)"
    using u(1) by (simp_all add: plain_def b_def n_def)
  have by_id: ?thesis if "truthy (field b ''tg_pdf_id'')" "caption_text num_str (hrEmail n) = Some cap"
    using that sf u(2) tail(1) unfolding n_def b_def
    by (auto simp: send_file_id tg_def simp del: parse_notice_sel(4))
  have by_url: ?thesis
    if "\<not> truthy (field b ''tg_pdf_id'')" "truthy (field b ''pdf_url'')"
      "caption_text num_str (hrEmail n) = Some cap"
    using that sf u(2) tail(1) unfolding n_def b_def
    by (auto simp: send_file_url tg_def simp del: parse_notice_sel(4))
  have threw: ?thesis
    if f: "truthy (field b ''tg_pdf_id'') \<or> truthy (field b ''pdf_url'')"
      and c: "caption_text num_str (hrEmail n) = None"
  proof -
    have s: "send_file num_str P n [] = (False, [])"
    proof (cases "truthy (field b ''tg_pdf_id'')")
      case True
      with c show ?thesis unfolding n_def b_def
        by (simp add: send_file_id del: parse_notice_sel(4))
    next
      case False
      with f c show ?thesis unfolding n_def b_def
        by (simp add: send_file_url del: parse_notice_sel(4))
    qed
    have "r = (Json 500 (error_body ''failed to deliver resume''),
               [Console LogError ''Error sending document to user'',
                Tg (SendMessage (field b ''userId'') delivery_failed_text)
                   (P [Console LogError ''Error sending document to user'']
                      (SendMessage (field b ''userId'') delivery_failed_text))])"
      using key uid st s unfolding r_def n_def b_def
      by (simp add: resume_ready_def header_or_empty_def Let_def deliver_def tg_def console_def
          del: parse_notice_sel(4,6))
    with f c show ?thesis by auto
  qed
  have neither: ?thesis
    if "\<not> truthy (field b ''tg_pdf_id'')" "\<not> truthy (field b ''pdf_url'')"
    using that sf u(2,3) tail unfolding n_def b_def
    by (auto simp: send_file_none tg_def console_def simp del: parse_notice_sel(4,6)
        split: if_splits bool.splits)
  show ?thesis
  proof (cases "caption_text num_str (hrEmail n) = Some cap")
    case True
    with by_id by_url neither show ?thesis by (cases "truthy (field b ''tg_pdf_id'')";
        cases "truthy (field b ''pdf_url'')") blast+
  next
    case False
    with threw neither show ?thesis
      by (cases "truthy (field b ''tg_pdf_id'')"; cases "truthy (field b ''pdf_url'')";
          cases "caption_text num_str (hrEmail n)") auto
  qed
qed

text \<open>Both references present, the URL alone, and neither.\<close>

theorem resume_ready_document_priority_witness:
  "resume_ready cfg_ex num_str_ex accept_all
     (backend_req (JObj [(''userId'', JNum 5), (''tg_pdf_id'', JStr ''F1''),
                         (''pdf_url'', JStr ''https://x.example/r.pdf'')])) =
     (Json 200 ok_true,
      [Tg (SendDocument (JNum 5) (JStr ''F1'') (JStr ''Your resume (generated).'')) True])
   \<and> resume_ready cfg_ex num_str_ex accept_all
     (backend_req (JObj [(''userId'', JNum 5), (''pdf_url'', JStr ''https://x.example/r.pdf'')])) =
     (Json 200 ok_true,
      [Tg (SendDocument (JNum 5) (JStr ''https://x.example/r.pdf'')
             (JStr ''Your resume (generated).'')) True])
   \<and> resume_ready cfg_ex num_str_ex accept_all
     (backend_req (JObj [(''userId'', JNum 5), (''status'', JStr ''completed'')])) =
     (Json 200 ok_true,
      [Tg (SendMessage (JNum 5) no_file_text) True,
       Console LogWarn ''resume-ready missing file for user''])"
  using
    resume_ready_document_priority [where cfg = cfg_ex and num_str = num_str_ex
      and P = accept_all and cap = "''Your resume (generated).''" and req =
      "backend_req (JObj [(''userId'', JNum 5), (''tg_pdf_id'', JStr ''F1''),
                          (''pdf_url'', JStr ''https://x.example/r.pdf'')])"]
    resume_ready_document_priority [where cfg = cfg_ex and num_str = num_str_ex
      and P = accept_all and cap = "''Your resume (generated).''" and req =
      "backend_req (JObj [(''userId'', JNum 5), (''pdf_url'', JStr ''https://x.example/r.pdf'')])"]
    resume_ready_document_priority [where cfg = cfg_ex and num_str = num_str_ex
      and P = accept_all and cap = "''Your resume (generated).''" and req =
      "backend_req (JObj [(''userId'', JNum 5), (''status'', JStr ''completed'')])"]
  by (simp add: sample_defs run_defs)

text \<open>The statement without these conditions fails. With a truthy \<^verbatim>\<open>tg_pdf_id\<close> and the HR
  contact \<^verbatim>\<open>[{"toString":null}]\<close> the caption template throws and the document is never sent.
  With neither reference and a platform that rejects the apology, no warning is logged and
  the response is 500.\<close>

theorem resume_ready_caption_throws_no_document:
  "resume_ready cfg_ex num_str_ex accept_all
     (backend_req (JObj [(''userId'', JNum 5), (''tg_pdf_id'', JStr ''F1''),
                         (''hr_contact'', JArr [JObj [(''toString'', JNull)]])])) =
     (Json 500 (error_body ''failed to deliver resume''),
      [Console LogError ''Error sending document to user'',
       Tg (SendMessage (JNum 5) delivery_failed_text) True])
   \<and> resume_ready cfg_ex num_str_ex reject_all
     (backend_req (JObj [(''userId'', JNum 5), (''status'', JStr ''completed'')])) =
     (Json 500 (error_body ''failed to deliver resume''),
      [Tg (SendMessage (JNum 5) no_file_text) False,
       Console LogError ''Error sending document to user'',
       Tg (SendMessage (JNum 5) delivery_failed_text) False])"
  by (simp add: sample_defs run_defs)

text \<open>
  C5 (as amended). With the correct key and a userId, a \<^emph>\<open>truthy\<close> status other than
  \<^verbatim>\<open>"completed"\<close> makes the handler perform one platform call, the failure message, which
  names the jobId when there is one (a jobId that converts to a string); it sends no document
  and no follow-up. It responds 200 \<^verbatim>\<open>{ok:true}\<close> when the platform accepts that send, and
  otherwise logs and responds 500 \<^verbatim>\<open>{error:"internal error"}\<close>. When the conversion of the
  jobId throws, nothing is sent and the response is that 500. A status that is absent
  \<^emph>\<open>or falsy\<close> (\<^verbatim>\<open>null\<close>, \<^verbatim>\<open>false\<close>, \<^verbatim>\<open>0\<close>, \<^verbatim>\<open>""\<close>) is treated as \<^verbatim>\<open>"completed"\<close>: no
  failure message is sent, and the handler does what it does for a request that differs only
  in carrying the status \<^verbatim>\<open>"completed"\<close>.
\<close>

theorem resume_ready_failed_status:
  fixes cfg num_str P req
  defines "b \<equiv> body req"
  defines "r \<equiv> resume_ready cfg num_str P req"
  assumes key: "x_api_key req = Some (BACKEND_SECRET cfg)" "BACKEND_SECRET cfg \<noteq> []"
    and uid: "truthy (field b ''userId'')"
  shows "(truthy (field b ''status'') \<and> field b ''status'' \<noteq> JStr ''completed''
          \<and> (if truthy (field b ''jobId'') then to_str num_str (field b ''jobId'') else Some [])
              = Some j \<longrightarrow>
           (\<exists>ok. r =
              (if ok then Json 200 ok_true else Json 500 (error_body ''internal error''),
               Tg (SendMessage (field b ''userId'')
                     (glyph_cross @ '' Resume generation failed for job '' @ j
                      @ ''. Please try again or contact support.'')) ok
               # (if ok then [] else [Console LogError ''Error in /resume-ready:'']))))
      \<and> (truthy (field b ''status'') \<and> field b ''status'' \<noteq> JStr ''completed''
          \<and> unprintable num_str (field b ''jobId'') \<longrightarrow>
           r = (Json 500 (error_body ''internal error''),
                [Console LogError ''Error in /resume-ready:'']))
      \<and> (\<not> truthy (field b ''status'') \<longrightarrow>
           status (parse_notice b) = JStr ''completed''
           \<and> \<not> list_ex is_failure_message (tg_calls (snd r))
           \<and> (\<forall>req'. x_api_key req' = x_api_key req
                  \<and> parse_notice (body req') = (parse_notice b) \<lparr> status := JStr ''completed'' \<rparr>
                  \<longrightarrow> resume_ready cfg num_str P req' = r))"
proof -
  let ?n = "parse_notice (body req)"
  have failed: "\<exists>ok. r =
              (if ok then Json 200 ok_true else Json 500 (error_body ''internal error''),
               Tg (SendMessage (field b ''userId'')
                     (glyph_cross @ '' Resume generation failed for job '' @ j
                      @ ''. Please try again or contact support.'')) ok
               # (if ok then [] else [Console LogError ''Error in /resume-ready:'']))"
    if "truthy (field b ''status'')" "field b ''status'' \<noteq> JStr ''completed''"
      "(if truthy (field b ''jobId'') then to_str num_str (field b ''jobId'') else Some [])
         = Some j"
  proof -
    let ?c = "SendMessage (field b ''userId'')
                     (glyph_cross @ '' Resume generation failed for job '' @ j
                      @ ''. Please try again or contact support.'')"
    have g: "generation_failed_text num_str (jobId (parse_notice b)) =
               Some (glyph_cross @ '' Resume generation failed for job '' @ j
                      @ ''. Please try again or contact support.'')"
      using that(3) by (auto simp: generation_failed_text_def js_or_def split: if_splits)
    have s: "status (parse_notice b) \<noteq> JStr ''completed''"
      using that by (simp add: js_or_def)
    have "r =
            (if P [] ?c then Json 200 ok_true else Json 500 (error_body ''internal error''),
             Tg ?c (P [] ?c)
             # (if P [] ?c then [] else [Console LogError ''Error in /resume-ready:'']))"
      using key uid s g unfolding b_def r_def
      by (simp add: resume_ready_def header_or_empty_def Let_def tg_def console_def
          del: parse_notice_sel(5,6))
    then show ?thesis by (intro exI [of _ "P [] ?c"])
  qed
  have threw: "r = (Json 500 (error_body ''internal error''),
                [Console LogError ''Error in /resume-ready:''])"
    if "truthy (field b ''status'')" "field b ''status'' \<noteq> JStr ''completed''"
      "unprintable num_str (field b ''jobId'')"
  proof -
    have g: "generation_failed_text num_str (jobId (parse_notice b)) = None"
      using that(3) by (simp add: generation_failed_text_def js_or_def unprintable_def)
    have s: "status (parse_notice b) \<noteq> JStr ''completed''"
      using that by (simp add: js_or_def)
    show ?thesis
      using key uid s g unfolding b_def r_def
      by (simp add: resume_ready_def header_or_empty_def Let_def console_def
          del: parse_notice_sel(5,6))
  qed
  have defaulted: "status (parse_notice b) = JStr ''completed''
           \<and> \<not> list_ex is_failure_message (tg_calls (snd r))
           \<and> (\<forall>req'. x_api_key req' = x_api_key req
                  \<and> parse_notice (body req') = (parse_notice b) \<lparr> status := JStr ''completed'' \<rparr>
                  \<longrightarrow> resume_ready cfg num_str P req' = r)"
    if f: "\<not> truthy (field b ''status'')"
  proof -
    have st: "status ?n = JStr ''completed''"
      using f by (simp add: js_or_def b_def)
    obtain ok t where sf: "send_file num_str P ?n [] = (ok, t)"
      by (cases "send_file num_str P ?n []")
    from completed_path [OF key uid [unfolded b_def] st sf]
    obtain u where u: "plain ?n u" "snd r = t @ u"
      unfolding r_def by blast
    have tail: "\<not> list_ex is_failure_message (tg_calls u)"
      using u(1) by (simp add: plain_def)
    have head: "\<not> list_ex is_failure_message (tg_calls t)"
      using sf
      by (auto simp: send_file_def tg_def console_def
          simp del: parse_notice_sel(2-6) split: if_splits bool.splits option.splits)
    have same: "resume_ready cfg num_str P req' = r"
      if "x_api_key req' = x_api_key req"
        "parse_notice (body req') = (parse_notice b) \<lparr> status := JStr ''completed'' \<rparr>"
      for req'
    proof -
      from that(2) st have "parse_notice (body req') = parse_notice (body req)"
        by (simp add: b_def del: parse_notice_sel)
      with that(1) show ?thesis
        unfolding r_def by (simp add: resume_ready_def Let_def del: parse_notice_sel)
    qed
    from st head tail u(2) same show ?thesis
      by (simp add: b_def del: parse_notice_sel)
  qed
  from failed threw defaulted show ?thesis by blast
qed

text \<open>A failed job with a jobId string, one with a jobId object that has an own
  \<^verbatim>\<open>toString\<close> property, and a request with no status field.\<close>

theorem resume_ready_failed_status_witness:
  "resume_ready cfg_ex num_str_ex accept_all
     (backend_req (JObj [(''userId'', JNum 5), (''status'', JStr ''failed''),
                         (''jobId'', JStr ''J2'')])) =
     (Json 200 ok_true,
      [Tg (SendMessage (JNum 5)
             (glyph_cross @ '' Resume generation failed for job J2. Please try again or contact support.''))
          True])
   \<and> resume_ready cfg_ex num_str_ex accept_all
     (backend_req (JObj [(''userId'', JNum 5), (''status'', JStr ''failed''),
                         (''jobId'', JObj [(''toString'', JNum 1)])])) =
     (Json 500 (error_body ''internal error''), [Console LogError ''Error in /resume-ready:''])
   \<and> resume_ready cfg_ex num_str_ex accept_all
     (backend_req (JObj [(''userId'', JNum 5), (''tg_pdf_id'', JStr ''X'')])) =
     (Json 200 ok_true,
      [Tg (SendDocument (JNum 5) (JStr ''X'') (JStr ''Your resume (generated).'')) True])"
  using
    resume_ready_failed_status [where cfg = cfg_ex and num_str = num_str_ex and P = accept_all
      and j = "''J2''" and req =
      "backend_req (JObj [(''userId'', JNum 5), (''status'', JStr ''failed''),
                          (''jobId'', JStr ''J2'')])"]
    resume_ready_failed_status [where cfg = cfg_ex and num_str = num_str_ex and P = accept_all
      and j = "[]" and req =
      "backend_req (JObj [(''userId'', JNum 5), (''status'', JStr ''failed''),
                          (''jobId'', JObj [(''toString'', JNum 1)])])"]
    resume_ready_failed_status [where cfg = cfg_ex and num_str = num_str_ex and P = accept_all
      and j = "[]" and req =
      "backend_req (JObj [(''userId'', JNum 5), (''tg_pdf_id'', JStr ''X'')])"]
  by (simp add: sample_defs run_defs)

text \<open>The statement for every status value other than \<^verbatim>\<open>"completed"\<close> fails at the status
  \<^verbatim>\<open>""\<close>: the field is there, and the handler sends the document and the jobId follow-up,
  not a failure message. For every jobId it fails at \<^verbatim>\<open>{"toString":1}\<close>: nothing is sent.
  And the response is 500 when the platform rejects the failure message.\<close>

theorem resume_ready_empty_status_delivers:
  "field (JObj [(''userId'', JNum 5), (''status'', JStr ''''), (''tg_pdf_id'', JStr ''X''),
                (''jobId'', JStr ''J2'')]) ''status'' = JStr ''''
   \<and> JStr '''' \<noteq> JStr ''completed''
   \<and> resume_ready cfg_ex num_str_ex accept_all
     (backend_req (JObj [(''userId'', JNum 5), (''status'', JStr ''''),
                         (''tg_pdf_id'', JStr ''X''), (''jobId'', JStr ''J2'')])) =
     (Json 200 ok_true,
      [Tg (SendDocument (JNum 5) (JStr ''X'') (JStr ''Your resume (generated).'')) True,
       Tg (SendMessage (JNum 5) ''Job ID: J2'') True])
   \<and> resume_ready cfg_ex num_str_ex accept_all
     (backend_req (JObj [(''userId'', JNum 5), (''status'', JStr ''failed''),
                         (''jobId'', JObj [(''toString'', JNum 1)])])) =
     (Json 500 (error_body ''internal error''), [Console LogError ''Error in /resume-ready:''])
   \<and> resume_ready cfg_ex num_str_ex reject_all
     (backend_req (JObj [(''userId'', JNum 5), (''status'', JStr ''failed''),
                         (''jobId'', JStr ''J2'')])) =
     (Json 500 (error_body ''internal error''),
      [Tg (SendMessage (JNum 5)
             (glyph_cross @ '' Resume generation failed for job J2. Please try again or contact support.''))
          False,
       Console LogError ''Error in /resume-ready:''])"
  by (simp add: sample_defs run_defs)

text \<open>
  C6. A \<^verbatim>\<open>/resume-ready\<close> request whose \<^verbatim>\<open>x-api-key\<close> header is missing, empty or different
  from the backend secret is answered 403. The handler makes no platform call and reads
  nothing of the body; all it does besides responding is write one warning line to the
  console.
\<close>

theorem resume_ready_bad_key:
  assumes "x_api_key req = None \<or> x_api_key req = Some []
           \<or> x_api_key req \<noteq> Some (BACKEND_SECRET cfg)"
  shows "resume_ready cfg num_str P req =
           (SendStatus 403, [Console LogWarn ''Unauthorized resume-ready call from''])
         \<and> tg_calls (snd (resume_ready cfg num_str P req)) = []"
  using assms
  by (auto simp: resume_ready_def header_or_empty_def console_def split: option.splits)

theorem resume_ready_bad_key_witness:
  "resume_ready cfg_ex num_str_ex accept_all ((backend_req body_full) \<lparr> x_api_key := None \<rparr>) =
     (SendStatus 403, [Console LogWarn ''Unauthorized resume-ready call from''])
   \<and> resume_ready cfg_ex num_str_ex accept_all
       ((backend_req body_full) \<lparr> x_api_key := Some [] \<rparr>) =
     (SendStatus 403, [Console LogWarn ''Unauthorized resume-ready call from''])
   \<and> resume_ready cfg_ex num_str_ex accept_all
       ((backend_req body_full) \<lparr> x_api_key := Some ''S3CRET'' \<rparr>) =
     (SendStatus 403, [Console LogWarn ''Unauthorized resume-ready call from''])"
  using
    resume_ready_bad_key [of "(backend_req body_full) \<lparr> x_api_key := None \<rparr>" cfg_ex
      num_str_ex accept_all]
    resume_ready_bad_key [of "(backend_req body_full) \<lparr> x_api_key := Some [] \<rparr>" cfg_ex
      num_str_ex accept_all]
    resume_ready_bad_key [of "(backend_req body_full) \<lparr> x_api_key := Some ''S3CRET'' \<rparr>" cfg_ex
      num_str_ex accept_all]
  by (simp add: sample_defs)

text \<open>
  C7. A \<^verbatim>\<open>/resume-ready\<close> request with the correct key and no userId in its body (absent, or
  a falsy value) is answered 400 \<^verbatim>\<open>{error:"missing userId"}\<close>. The handler makes no platform
  call; all it does besides responding is write one warning line to the console.
\<close>

theorem resume_ready_missing_userId:
  assumes key: "x_api_key req = Some (BACKEND_SECRET cfg)" "BACKEND_SECRET cfg \<noteq> []"
    and nouid: "\<not> truthy (field (body req) ''userId'')"
  shows "resume_ready cfg num_str P req =
           (Json 400 (error_body ''missing userId''),
            [Console LogWarn ''resume-ready missing userId''])
         \<and> tg_calls (snd (resume_ready cfg num_str P req)) = []"
  using assms
  by (simp add: resume_ready_def header_or_empty_def console_def Let_def)

theorem resume_ready_missing_userId_witness:
  "resume_ready cfg_ex num_str_ex accept_all
     (backend_req (JObj [(''status'', JStr ''completed''), (''tg_pdf_id'', JStr ''X'')])) =
     (Json 400 (JObj [(''error'', JStr ''missing userId'')]),
      [Console LogWarn ''resume-ready missing userId''])"
  using resume_ready_missing_userId [of
      "backend_req (JObj [(''status'', JStr ''completed''), (''tg_pdf_id'', JStr ''X'')])"
      cfg_ex num_str_ex accept_all]
  by (simp add: sample_defs error_body_def)

text \<open>
  C10. On the completed path of \<^verbatim>\<open>/resume-ready\<close>, a \<^verbatim>\<open>tg_pdf_id\<close> that is the number 0 is
  kept by the parsing step (\<^verbatim>\<open>tgPdfId\<close> is 0, not \<^verbatim>\<open>null\<close>), but the delivery treats it as
  absent: no document is sent with 0 as its file. With a truthy \<^verbatim>\<open>pdf_url\<close> the delivery
  takes the URL branch: its first effect is the document send of the URL, or, when the
  caption template of that branch throws, the handler goes to the \<^verbatim>\<open>catch\<close> with nothing
  sent. Without a \<^verbatim>\<open>pdf_url\<close> the first effect is the apology message.
\<close>

theorem resume_ready_zero_file_id:
  fixes cfg num_str P req
  defines "b \<equiv> body req"
  defines "n \<equiv> parse_notice (body req)"
  defines "r \<equiv> resume_ready cfg num_str P req"
  defines "tr \<equiv> snd (resume_ready cfg num_str P req)"
  assumes key: "x_api_key req = Some (BACKEND_SECRET cfg)" "BACKEND_SECRET cfg \<noteq> []"
    and uid: "truthy (field b ''userId'')"
    and st: "status n = JStr ''completed''"
    and zero: "field b ''tg_pdf_id'' = JNum 0"
  shows "tgPdfId n = JNum 0
      \<and> (\<forall>c cap. SendDocument c (JNum 0) cap \<notin> set (tg_calls tr))
      \<and> (truthy (field b ''pdf_url'') \<longrightarrow>
            (case caption_text num_str (hrEmail n) of
               Some cap \<Rightarrow>
                 (\<exists>ok rest. tr = Tg (SendDocument (field b ''userId'') (field b ''pdf_url'')
                                       (JStr cap)) ok # rest)
             | None \<Rightarrow>
                 (\<exists>ok. r = (Json 500 (error_body ''failed to deliver resume''),
                             [Console LogError ''Error sending document to user'',
                              Tg (SendMessage (field b ''userId'') delivery_failed_text) ok]))))
      \<and> (\<not> truthy (field b ''pdf_url'') \<longrightarrow>
            (\<exists>ok rest. tr = Tg (SendMessage (field b ''userId'') no_file_text) ok # rest))"
proof -
  have nt: "\<not> truthy (field (body req) ''tg_pdf_id'')"
    using zero by (simp add: b_def)
  obtain ok t where sf: "send_file num_str P n [] = (ok, t)"
    by (cases "send_file num_str P n []")
  from completed_path [OF key uid [unfolded b_def] st [unfolded n_def] sf [unfolded n_def]]
  obtain u where u: "plain n u" "tr = t @ u"
    unfolding tr_def n_def by blast
  have tail: "\<not> list_ex is_document (tg_calls u)"
    using u(1) by (simp add: plain_def)
  then have nodoc: "SendDocument c (JNum 0) cap \<notin> set (tg_calls u)" for c cap
    by (auto simp: list_ex_iff)
  have p: "tgPdfId n = JNum 0"
    using zero by (simp add: n_def b_def)
  have by_url: ?thesis if url: "truthy (field b ''pdf_url'')"
  proof (cases "caption_text num_str (hrEmail n)")
    case (Some cap)
    with url sf nt have "t = [Tg (SendDocument (field b ''userId'') (field b ''pdf_url'')
        (JStr cap)) ok]"
      unfolding n_def b_def
      by (auto simp: send_file_url tg_def simp del: parse_notice_sel)
    moreover from url have "field b ''pdf_url'' \<noteq> JNum 0" by auto
    ultimately show ?thesis
      using url u(2) nodoc p Some by auto
  next
    case None
    with url nt have s: "send_file num_str P n [] = (False, [])"
      unfolding n_def b_def by (simp add: send_file_url del: parse_notice_sel(4))
    have res: "r = (Json 500 (error_body ''failed to deliver resume''),
               [Console LogError ''Error sending document to user'',
                Tg (SendMessage (field b ''userId'') delivery_failed_text)
                   (P [Console LogError ''Error sending document to user'']
                      (SendMessage (field b ''userId'') delivery_failed_text))])"
      using key uid st s unfolding r_def n_def b_def
      by (simp add: resume_ready_def header_or_empty_def Let_def deliver_def tg_def console_def
          del: parse_notice_sel(4,6))
    then have "tr = [Console LogError ''Error sending document to user'',
                Tg (SendMessage (field b ''userId'') delivery_failed_text)
                   (P [Console LogError ''Error sending document to user'']
                      (SendMessage (field b ''userId'') delivery_failed_text))]"
      unfolding tr_def r_def by simp
    with url p None res show ?thesis by auto
  qed
  have neither: ?thesis if "\<not> truthy (field b ''pdf_url'')"
    using that sf u(2) nodoc nt p unfolding n_def b_def
    by (auto simp: send_file_none tg_def console_def simp del: parse_notice_sel
        split: if_splits bool.splits)
  from by_url neither show ?thesis by blast
qed

text \<open>File id 0 with a URL, the same with an HR contact whose conversion throws, and file id
  0 alone.\<close>

theorem resume_ready_zero_file_id_witness:
  "tgPdfId (parse_notice (JObj [(''userId'', JNum 5), (''tg_pdf_id'', JNum 0)])) = JNum 0
   \<and> resume_ready cfg_ex num_str_ex accept_all
     (backend_req (JObj [(''userId'', JNum 5), (''tg_pdf_id'', JNum 0),
                         (''pdf_url'', JStr ''https://x.example/r.pdf'')])) =
     (Json 200 ok_true,
      [Tg (SendDocument (JNum 5) (JStr ''https://x.example/r.pdf'')
             (JStr ''Your resume (generated).'')) True])
   \<and> resume_ready cfg_ex num_str_ex accept_all
     (backend_req (JObj [(''userId'', JNum 5), (''tg_pdf_id'', JNum 0),
                         (''pdf_url'', JStr ''https://x.example/r.pdf''),
                         (''hrEmail'', JObj [(''toString'', JStr ''x'')])])) =
     (Json 500 (error_body ''failed to deliver resume''),
      [Console LogError ''Error sending document to user'',
       Tg (SendMessage (JNum 5) delivery_failed_text) True])
   \<and> resume_ready cfg_ex num_str_ex accept_all
     (backend_req (JObj [(''userId'', JNum 5), (''tg_pdf_id'', JNum 0)])) =
     (Json 200 ok_true,
      [Tg (SendMessage (JNum 5) no_file_text) True,
       Console LogWarn ''resume-ready missing file for user''])"
  using
    resume_ready_zero_file_id [where cfg = cfg_ex and num_str = num_str_ex and P = accept_all
      and req = "backend_req (JObj [(''userId'', JNum 5), (''tg_pdf_id'', JNum 0),
                          (''pdf_url'', JStr ''https://x.example/r.pdf'')])"]
    resume_ready_zero_file_id [where cfg = cfg_ex and num_str = num_str_ex and P = accept_all
      and req = "backend_req (JObj [(''userId'', JNum 5), (''tg_pdf_id'', JNum 0),
                          (''pdf_url'', JStr ''https://x.example/r.pdf''),
                          (''hrEmail'', JObj [(''toString'', JStr ''x'')])])"]
    resume_ready_zero_file_id [where cfg = cfg_ex and num_str = num_str_ex and P = accept_all
      and req = "backend_req (JObj [(''userId'', JNum 5), (''tg_pdf_id'', JNum 0)])"]
  by (simp add: sample_defs run_defs)

section \<open>POST /admin/resend: the claim\<close>

text \<open>
  C8. With the correct key and a userId, \<^verbatim>\<open>/admin/resend\<close> responds 400
  \<^verbatim>\<open>{error:"no file provided"}\<close> and does nothing else when neither \<^verbatim>\<open>tgPdfId\<close> nor
  \<^verbatim>\<open>pdfUrl\<close> is present. Otherwise its only platform call is one document send, of
  \<^verbatim>\<open>tgPdfId\<close> when present and else of \<^verbatim>\<open>pdfUrl\<close>, with the given caption or
  \<^verbatim>\<open>Resent resume\<close>; there is no follow-up. It responds 200 \<^verbatim>\<open>{ok:true}\<close> when the send is
  accepted; when it is rejected it logs and responds 500 \<^verbatim>\<open>{error:"failed"}\<close>, and sends the
  user nothing.
\<close>

theorem admin_resend_outcomes:
  fixes cfg P req
  defines "b \<equiv> body req"
  assumes key: "x_api_key req = Some (BACKEND_SECRET cfg)" "BACKEND_SECRET cfg \<noteq> []"
    and uid: "truthy (field b ''userId'')"
  shows "(\<not> truthy (field b ''tgPdfId'') \<and> \<not> truthy (field b ''pdfUrl'') \<longrightarrow>
            admin_resend cfg P req = (Json 400 (error_body ''no file provided''), []))
      \<and> (truthy (field b ''tgPdfId'') \<or> truthy (field b ''pdfUrl'') \<longrightarrow>
            (\<exists>ok. admin_resend cfg P req =
               (if ok then Json 200 ok_true else Json 500 (error_body ''failed''),
                Tg (SendDocument (field b ''userId'')
                      (if truthy (field b ''tgPdfId'') then field b ''tgPdfId''
                       else field b ''pdfUrl'')
                      (if truthy (field b ''caption'') then field b ''caption''
                       else JStr ''Resent resume'')) ok
                # (if ok then [] else [Console LogError ''admin resend error'']))))"
proof -
  let ?c = "SendDocument (field b ''userId'')
                      (if truthy (field b ''tgPdfId'') then field b ''tgPdfId''
                       else field b ''pdfUrl'')
                      (if truthy (field b ''caption'') then field b ''caption''
                       else JStr ''Resent resume'')"
  have none: "admin_resend cfg P req = (Json 400 (error_body ''no file provided''), [])"
    if "\<not> truthy (field b ''tgPdfId'')" "\<not> truthy (field b ''pdfUrl'')"
    using that key uid unfolding b_def
    by (simp add: admin_resend_def header_or_empty_def Let_def)
  have some: "admin_resend cfg P req =
               (if P [] ?c then Json 200 ok_true else Json 500 (error_body ''failed''),
                Tg ?c (P [] ?c)
                # (if P [] ?c then [] else [Console LogError ''admin resend error'']))"
    if "truthy (field b ''tgPdfId'') \<or> truthy (field b ''pdfUrl'')"
    using that key uid unfolding b_def
    by (auto simp: admin_resend_def header_or_empty_def Let_def js_or_JStr tg_def console_def)
  from some have "\<exists>ok. admin_resend cfg P req =
               (if ok then Json 200 ok_true else Json 500 (error_body ''failed''),
                Tg ?c ok # (if ok then [] else [Console LogError ''admin resend error'']))"
    if "truthy (field b ''tgPdfId'') \<or> truthy (field b ''pdfUrl'')"
    using that by (intro exI [of _ "P [] ?c"]) simp
  with none show ?thesis by blast
qed

text \<open>No file; both references on a platform that accepts; the same on one that rejects.\<close>

theorem admin_resend_outcomes_witness:
  "admin_resend cfg_ex accept_all (backend_req (JObj [(''userId'', JNum 5)])) =
     (Json 400 (JObj [(''error'', JStr ''no file provided'')]), [])
   \<and> admin_resend cfg_ex accept_all
     (backend_req (JObj [(''userId'', JNum 5), (''tgPdfId'', JStr ''F1''),
                         (''pdfUrl'', JStr ''https://x.example/r.pdf'')])) =
     (Json 200 ok_true,
      [Tg (SendDocument (JNum 5) (JStr ''F1'') (JStr ''Resent resume'')) True])
   \<and> admin_resend cfg_ex reject_all
     (backend_req (JObj [(''userId'', JNum 5), (''tgPdfId'', JStr ''F1''),
                         (''pdfUrl'', JStr ''https://x.example/r.pdf'')])) =
     (Json 500 (JObj [(''error'', JStr ''failed'')]),
      [Tg (SendDocument (JNum 5) (JStr ''F1'') (JStr ''Resent resume'')) False,
       Console LogError ''admin resend error''])"
  using
    admin_resend_outcomes [where cfg = cfg_ex and P = accept_all and req =
      "backend_req (JObj [(''userId'', JNum 5)])"]
    admin_resend_outcomes [where cfg = cfg_ex and P = accept_all and req =
      "backend_req (JObj [(''userId'', JNum 5), (''tgPdfId'', JStr ''F1''),
                          (''pdfUrl'', JStr ''https://x.example/r.pdf'')])"]
    admin_resend_outcomes [where cfg = cfg_ex and P = reject_all and req =
      "backend_req (JObj [(''userId'', JNum 5), (''tgPdfId'', JStr ''F1''),
                          (''pdfUrl'', JStr ''https://x.example/r.pdf'')])"]
  by (simp add: sample_defs admin_resend_def header_or_empty_def js_or_def tg_def console_def
      error_body_def Let_def)

section \<open>POST /tg-webhook: the claim\<close>

text \<open>
  C9. When the webhook secret is configured and the secret-token header is missing or
  different from it, \<^verbatim>\<open>/tg-webhook\<close> responds 401 and does not hand the update over. When the
  secret is unset the header is not looked at: every update is handed to
  \<^verbatim>\<open>bot.processUpdate\<close>, and the response is 200, or 500 when that call throws.
\<close>

theorem tg_webhook_secret_check:
  "(TELEGRAM_WEBHOOK_SECRET cfg \<noteq> []
      \<and> x_telegram_bot_api_secret_token req \<noteq> Some (TELEGRAM_WEBHOOK_SECRET cfg) \<longrightarrow>
        tg_webhook cfg throws req =
          (SendStatus 401, [Console LogWarn ''Invalid telegram webhook secret token from'']))
   \<and> (TELEGRAM_WEBHOOK_SECRET cfg = [] \<longrightarrow>
        tg_webhook cfg throws req =
          (if throws (body req) then SendStatus 500 else SendStatus 200,
           ProcessUpdate (body req)
           # (if throws (body req) then [Console LogError ''Error processing /tg-webhook:'']
              else [])))"
  by (auto simp: tg_webhook_def header_or_empty_def console_def Let_def split: option.splits)

text \<open>A configured secret with no header and with a wrong one; no secret, with an update
  the library accepts and with one it throws on.\<close>

theorem tg_webhook_secret_check_witness:
  "tg_webhook cfg_secret_ex (\<lambda>u. False) (hook_req None (JObj [(''update_id'', JNum 1)])) =
     (SendStatus 401, [Console LogWarn ''Invalid telegram webhook secret token from''])
   \<and> tg_webhook cfg_secret_ex (\<lambda>u. False)
       (hook_req (Some ''Hook'') (JObj [(''update_id'', JNum 1)])) =
     (SendStatus 401, [Console LogWarn ''Invalid telegram webhook secret token from''])
   \<and> tg_webhook cfg_ex (\<lambda>u. False) (hook_req (Some ''any'') (JObj [(''update_id'', JNum 1)])) =
     (SendStatus 200, [ProcessUpdate (JObj [(''update_id'', JNum 1)])])
   \<and> tg_webhook cfg_ex (\<lambda>u. True) (hook_req None JUndefined) =
     (SendStatus 500,
      [ProcessUpdate JUndefined, Console LogError ''Error processing /tg-webhook:''])"
  using
    tg_webhook_secret_check [of cfg_secret_ex "hook_req None (JObj [(''update_id'', JNum 1)])"
      "\<lambda>u. False"]
    tg_webhook_secret_check [of cfg_secret_ex
      "hook_req (Some ''Hook'') (JObj [(''update_id'', JNum 1)])" "\<lambda>u. False"]
    tg_webhook_secret_check [of cfg_ex
      "hook_req (Some ''any'') (JObj [(''update_id'', JNum 1)])" "\<lambda>u. False"]
    tg_webhook_secret_check [of cfg_ex "hook_req None JUndefined" "\<lambda>u. True"]
  by (simp add: cfg_ex_def cfg_secret_ex_def hook_req_def)

section \<open>The message handler: the claim\<close>

text \<open>
  C3 (as amended). For a message with a sender and a chat whose \<^emph>\<open>job description\<close> is
  non-empty (the trimmed text, or for a text that starts with \<^verbatim>\<open>/apply\<close> what is left of it
  after removing that prefix and trimming again), the first effect of the handler is the
  acknowledgement message to the chat, and it is sent once. The POST to the backend's
  \<^verbatim>\<open>/apply\<close> is made only when that send has resolved, as the next effect and once; when the
  send is rejected there is no POST at all.
\<close>

theorem on_message_acknowledges_before_submit:
  fixes cfg P B m sender chat
  defines "text \<equiv> trim (case msg_text m of None \<Rightarrow> [] | Some s \<Rightarrow> s)"
  defines "ack \<equiv> SendMessage (JNum (of_int (chat_id chat))) ack_text"
  assumes sender: "msg_from m = Some sender" and chat: "msg_chat m = Some chat"
    and jd: "jd_text text \<noteq> []"
  shows "\<exists>ok rest. on_message cfg P B (Some m) = Tg ack ok # rest
      \<and> ack \<notin> set (tg_calls rest)
      \<and> (if ok then
            \<exists>rest'. rest = HttpPost (apply_url cfg) (BACKEND_SECRET cfg)
                (JObj [(''userId'', JNum (of_int (user_id sender))), (''jd'', JStr (jd_text text)),
                       (''meta'', JObj [(''username'',
                                        JStr (case username sender of None \<Rightarrow> [] | Some u \<Rightarrow> u)),
                                       (''chatId'', JNum (of_int (chat_id chat)))])]) # rest'
              \<and> \<not> list_ex is_post rest'
          else \<not> list_ex is_post rest)"
proof -
  let ?uname = "case username sender of None \<Rightarrow> [] | Some u \<Rightarrow> u"
  have nonempty: "text \<noteq> []"
    using jd by auto
  have run: "on_message cfg P B (Some m) =
      acknowledge cfg P B (user_id sender) (chat_id chat) ?uname (jd_text text)"
    using sender chat jd nonempty unfolding text_def
    by (simp add: on_message_def Let_def)
  show ?thesis
  proof (cases "P [] ack")
    case False
    with run show ?thesis
      by (intro exI [of _ False] exI [of _ "[Console LogError ''Error in message handler:'']"])
         (simp add: acknowledge_def tg_def console_def ack_def)
  next
    case True
    obtain rest' where r: "submit cfg P B (user_id sender) (chat_id chat) ?uname (jd_text text)
          [Tg ack True] =
        [Tg ack True] @ HttpPost (apply_url cfg) (BACKEND_SECRET cfg)
            (JObj [(''userId'', JNum (of_int (user_id sender))), (''jd'', JStr (jd_text text)),
                   (''meta'', JObj [(''username'', JStr ?uname),
                                   (''chatId'', JNum (of_int (chat_id chat)))])]) # rest'"
      "\<not> list_ex is_post rest'" "ack \<notin> set (tg_calls rest')"
      using submit_trace [of cfg P B "user_id sender" "chat_id chat" ?uname "jd_text text"
          "[Tg ack True]"]
      unfolding ack_def by blast
    from True run r show ?thesis
      by (intro exI [of _ True]) (simp add: acknowledge_def tg_def ack_def)
  qed
qed

text \<open>A job description after the command prefix, and a plain one on a platform that
  rejects the acknowledgement.\<close>

theorem on_message_acknowledges_before_submit_witness:
  "on_message cfg_ex accept_all backend_ex (Some (text_msg '' /apply  Senior engineer '')) =
     [Tg (SendMessage (JNum 9) ack_text) True,
      HttpPost ''https://backend.example.com/apply'' ''s3cret''
        (JObj [(''userId'', JNum 7), (''jd'', JStr ''Senior engineer''),
               (''meta'', JObj [(''username'', JStr ''ann''), (''chatId'', JNum 9)])]),
      Console LogInfo ''Backend accepted job'']
   \<and> on_message cfg_ex reject_all backend_ex (Some (text_msg ''Senior engineer'')) =
     [Tg (SendMessage (JNum 9) ack_text) False, Console LogError ''Error in message handler:'']"
  using
    on_message_acknowledges_before_submit [of "text_msg '' /apply  Senior engineer ''"
      "\<lparr> user_id = 7, username = Some ''ann'' \<rparr>" "\<lparr> chat_id = 9 \<rparr>" cfg_ex accept_all backend_ex]
    on_message_acknowledges_before_submit [of "text_msg ''Senior engineer''"
      "\<lparr> user_id = 7, username = Some ''ann'' \<rparr>" "\<lparr> chat_id = 9 \<rparr>" cfg_ex reject_all backend_ex]
  by (simp add: sample_defs backend_ex_def text_msg_def message_defs)

text \<open>The claim as stated fails at the text \<^verbatim>\<open>/apply\<close>: it is non-empty after trimming, and
  the handler sends the usage hint, no acknowledgement, and makes no backend call.\<close>

theorem on_message_bare_apply_no_ack:
  "trim ''/apply'' = ''/apply''
   \<and> on_message cfg_ex accept_all backend_ex (Some (text_msg ''/apply''))
       = [Tg (SendMessage (JNum 9) usage_text) True]"
  by (simp add: sample_defs backend_ex_def text_msg_def message_defs)

end
